theory Spec2Isabelle
  imports Complex_Main "HOL-Library.List_Lexorder" "HOL-Library.Char_ord"
begin

section \<open>Values\<close>

text \<open>
  A JavaScript \<open>number\<close> that arrives in a socket payload is a finite double. It is
  modelled by the exact rational it denotes; the rounding error of a double addition is
  not modelled. A \<open>Date\<close> is its number of milliseconds since the epoch. A thrown
  JavaScript value is either an \<open>Error\<close> with its message or something else.
\<close>

type_synonym js_number = rat
type_synonym js_date = int

datatype js_exception = Error string | NonError

text \<open>
  The money columns of \<open>migration.sql\<close> are \<open>DECIMAL(12,2)\<close>: a stored value is a
  whole number of cents. \<open>toNumber\<close> reads such a column into a number. Writing a number
  into such a column rounds it to two fractional digits (ties away from zero) and fails
  when more than ten digits remain left of the decimal point.
\<close>

type_synonym decimal_12_2 = int

definition toNumber :: "decimal_12_2 \<Rightarrow> js_number" where
  "toNumber c = of_int c / 100"

definition round_half_away :: "rat \<Rightarrow> int" where
  "round_half_away x = (if 0 \<le> x then \<lfloor>x + 1 / 2\<rfloor> else - \<lfloor>- x + 1 / 2\<rfloor>)"

definition store_decimal_12_2 :: "js_number \<Rightarrow> decimal_12_2 option" where
  "store_decimal_12_2 x =
     (let c = round_half_away (x * 100)
      in if \<bar>c\<bar> < 10 ^ 12 then Some c else None)"

section \<open>The relational store\<close>

datatype AuctionItemStatus = ACTIVE | ENDED | CANCELLED

record user_row =
  user_id :: string
  user_username :: string

record auction_item =
  ai_id :: string
  startingPriceInDollars :: decimal_12_2
  currentHighestBidInDollars :: decimal_12_2
  minimumBidIncrementInDollars :: decimal_12_2
  auctionStartTimeTimestamp :: js_date
  auctionEndTimeTimestamp :: js_date
  currentStatus :: AuctionItemStatus
  updatedAtTimestamp :: js_date
  creatorUserId :: string
  winnerUserId :: "string option"

record bid =
  bid_id :: string
  bid_bidAmountInDollars :: decimal_12_2
  bid_placedAtTimestamp :: js_date
  bid_wasBidSuccessful :: bool
  bid_bidProcessingTimeInMs :: "int option"
  bid_auctionItemId :: string
  bid_bidderUserId :: string

text \<open>
  A table is the list of its rows in the order a scan of the table yields them; new rows
  go to the end. \<open>dbUp\<close> is false while the database cannot be reached: every Prisma
  call then throws.
\<close>

record store =
  dbUp :: bool
  users :: "user_row list"
  auction_items :: "auction_item list"
  bids :: "bid list"

definition db_unreachable :: js_exception where
  "db_unreachable = Error ''PrismaClientInitializationError''"

definition findUnique_auctionItem :: "store \<Rightarrow> string \<Rightarrow> auction_item option" where
  "findUnique_auctionItem st auctionItemId =
     find (\<lambda>a. ai_id a = auctionItemId) (auction_items st)"

definition findUnique_user :: "store \<Rightarrow> string \<Rightarrow> user_row option" where
  "findUnique_user st userId = find (\<lambda>u. user_id u = userId) (users st)"

text \<open>
  \<open>bid.findFirst\<close> with \<open>where: {auctionItemId, wasBidSuccessful: true}\<close> and
  \<open>orderBy: {bidAmountInDollars: 'desc'}\<close>: the first row of the matching rows sorted
  by amount, highest first. The query names no second sort key; the sort is taken to be
  stable, so among rows of equal amount the one the scan meets first is returned.
\<close>

definition successful_bids_on :: "store \<Rightarrow> string \<Rightarrow> bid list" where
  "successful_bids_on st auctionItemId =
     filter (\<lambda>b. bid_auctionItemId b = auctionItemId \<and> bid_wasBidSuccessful b) (bids st)"

definition findFirst_highestBid :: "store \<Rightarrow> string \<Rightarrow> bid option" where
  "findFirst_highestBid st auctionItemId =
     (case sort_key (\<lambda>b. - bid_bidAmountInDollars b) (successful_bids_on st auctionItemId) of
        [] \<Rightarrow> None
      | b # _ \<Rightarrow> Some b)"

text \<open>\<open>auctionItem.update({where: {id}, data})\<close> on a store that holds the row.\<close>

definition update_auctionItem ::
  "string \<Rightarrow> (auction_item \<Rightarrow> auction_item) \<Rightarrow> store \<Rightarrow> store" where
  "update_auctionItem auctionItemId f st =
     st\<lparr>auction_items := map (\<lambda>a. if ai_id a = auctionItemId then f a else a) (auction_items st)\<rparr>"

section \<open>The coordinator (Redis)\<close>

text \<open>
  The key space is a map from keys to string values. A value is a given string, or the
  string JavaScript prints for a number (\<open>NumStr x\<close> stands for \<open>x.toString()\<close>).
  \<open>redisUp\<close> is false while Redis cannot be reached: every command then throws.
  \<open>commands\<close> is the log of the commands the client was asked to run, in order; it
  records that a call was made, whatever came of it. Expiry of a key by its time-to-live
  is a step of the environment, not of any function below.
\<close>

datatype redis_value = Str string | NumStr js_number

datatype redis_command =
    SET_PX_NX string string nat
  | EVAL_SAFE_LOCK_RELEASE string string
  | SETEX string nat redis_value

record redis_state =
  redisUp :: bool
  kv :: "string \<rightharpoonup> redis_value"
  commands :: "redis_command list"

definition REDIS_KEY_PREFIX_FOR_BID_PROCESSING_LOCK :: string where
  "REDIS_KEY_PREFIX_FOR_BID_PROCESSING_LOCK = ''lock:bid-processing:''"

definition generateBidProcessingLockKey :: "string \<Rightarrow> string" where
  "generateBidProcessingLockKey auctionItemId =
     REDIS_KEY_PREFIX_FOR_BID_PROCESSING_LOCK @ auctionItemId"

definition generateCurrentBidCacheKey :: "string \<Rightarrow> string" where
  "generateCurrentBidCacheKey auctionItemId = ''auction:current-bid:'' @ auctionItemId"

definition generateHighestBidderCacheKey :: "string \<Rightarrow> string" where
  "generateHighestBidderCacheKey auctionItemId = ''auction:highest-bidder:'' @ auctionItemId"

definition CACHE_TTL_FOR_AUCTION_STATE_IN_SECONDS :: nat where
  "CACHE_TTL_FOR_AUCTION_STATE_IN_SECONDS = 60"

definition LOCK_TTL_FOR_BID_PROCESSING_IN_MILLISECONDS :: nat where
  "LOCK_TTL_FOR_BID_PROCESSING_IN_MILLISECONDS = 5000"

section \<open>The lock manager\<close>

record LockAcquisitionResult =
  wasLockAcquiredSuccessfully :: bool
  uniqueLockIdentifier :: "string option"
  lock_errorMessage :: "string option"

record LockReleaseResult =
  wasLockReleasedSuccessfully :: bool
  release_errorMessage :: "string option"

text \<open>
  \<open>acquireDistributedLockForBidProcessing\<close>: \<open>SET key token PX ttl NX\<close>. The token is
  the fresh UUID the function draws; it is a parameter here. A Redis error is caught and
  reported as a lock that was not acquired.
\<close>

definition acquireDistributedLockForBidProcessing ::
  "string \<Rightarrow> string \<Rightarrow> nat \<Rightarrow> redis_state \<Rightarrow> LockAcquisitionResult \<times> redis_state" where
  "acquireDistributedLockForBidProcessing freshUuid auctionItemId lockTimeoutInMilliseconds r =
     (let lockKeyName = generateBidProcessingLockKey auctionItemId;
          r1 = r\<lparr>commands := commands r @ [SET_PX_NX lockKeyName freshUuid lockTimeoutInMilliseconds]\<rparr>
      in if \<not> redisUp r then
           (\<lparr>wasLockAcquiredSuccessfully = False, uniqueLockIdentifier = None,
             lock_errorMessage = Some ''Failed to acquire lock due to Redis error''\<rparr>, r1)
         else if kv r lockKeyName = None then
           (\<lparr>wasLockAcquiredSuccessfully = True, uniqueLockIdentifier = Some freshUuid,
             lock_errorMessage = None\<rparr>,
            r1\<lparr>kv := (kv r)(lockKeyName \<mapsto> Str freshUuid)\<rparr>)
         else
           (\<lparr>wasLockAcquiredSuccessfully = False, uniqueLockIdentifier = None,
             lock_errorMessage = Some ''Lock is currently held by another process''\<rparr>, r1))"

text \<open>
  \<open>releaseDistributedLockForBidProcessing\<close>: the Lua script deletes the key only when
  it still holds the caller's token. A Redis error is caught.
\<close>

definition releaseDistributedLockForBidProcessing ::
  "string \<Rightarrow> string \<Rightarrow> redis_state \<Rightarrow> LockReleaseResult \<times> redis_state" where
  "releaseDistributedLockForBidProcessing auctionItemId token r =
     (let lockKeyName = generateBidProcessingLockKey auctionItemId;
          r1 = r\<lparr>commands := commands r @ [EVAL_SAFE_LOCK_RELEASE lockKeyName token]\<rparr>
      in if \<not> redisUp r then
           (\<lparr>wasLockReleasedSuccessfully = False,
             release_errorMessage = Some ''Failed to release lock due to Redis error''\<rparr>, r1)
         else if kv r lockKeyName = Some (Str token) then
           (\<lparr>wasLockReleasedSuccessfully = True, release_errorMessage = None\<rparr>,
            r1\<lparr>kv := (kv r)(lockKeyName := None)\<rparr>)
         else
           (\<lparr>wasLockReleasedSuccessfully = False,
             release_errorMessage =
               Some ''Lock was not owned by this process or has already expired''\<rparr>, r1))"

section \<open>The server's state\<close>

text \<open>
  \<open>rooms\<close> maps a Socket.IO room name to the ids of the sockets that joined it.
\<close>

record world =
  db :: store
  redis :: redis_state
  rooms :: "string \<Rightarrow> string set"

record 'a ExecuteWithLockResult =
  wasExecutionSuccessful :: bool
  executionResult :: "'a option"
  exec_errorMessage :: "string option"
  wasLockAcquired :: bool

text \<open>
  \<open>executeWithDistributedLock\<close>. The callback runs on the whole state and either
  returns a value (\<open>Inr\<close>) or throws (\<open>Inl\<close>); the \<open>finally\<close> block runs after both.
\<close>

definition executeWithDistributedLock ::
  "string \<Rightarrow> string \<Rightarrow> (world \<Rightarrow> (js_exception + 'a) \<times> world) \<Rightarrow> nat \<Rightarrow> world
     \<Rightarrow> 'a ExecuteWithLockResult \<times> world" where
  "executeWithDistributedLock freshUuid auctionItemId callbackToExecuteWhileHoldingLock
       lockTimeoutInMilliseconds w =
     (let (lockAcquisitionResult, r1) =
            acquireDistributedLockForBidProcessing freshUuid auctionItemId
              lockTimeoutInMilliseconds (redis w);
          w1 = w\<lparr>redis := r1\<rparr>
      in if \<not> wasLockAcquiredSuccessfully lockAcquisitionResult then
           (\<lparr>wasExecutionSuccessful = False, executionResult = None,
             exec_errorMessage = lock_errorMessage lockAcquisitionResult,
             wasLockAcquired = False\<rparr>, w1)
         else
           (let token = the (uniqueLockIdentifier lockAcquisitionResult);
                (outcome, w2) = callbackToExecuteWhileHoldingLock w1;
                w3 = w2\<lparr>redis := snd (releaseDistributedLockForBidProcessing auctionItemId token
                                        (redis w2))\<rparr>
            in case outcome of
                 Inr returned \<Rightarrow>
                   (\<lparr>wasExecutionSuccessful = True, executionResult = Some returned,
                     exec_errorMessage = None, wasLockAcquired = True\<rparr>, w3)
               | Inl executionError \<Rightarrow>
                   (\<lparr>wasExecutionSuccessful = False, executionResult = None,
                     exec_errorMessage =
                       Some (case executionError of
                               Error message \<Rightarrow> message
                             | NonError \<Rightarrow> ''Unknown error during locked execution''),
                     wasLockAcquired = True\<rparr>, w3)))"

section \<open>Error codes\<close>

definition BID_ERROR_CONCURRENT_BID :: string where
  "BID_ERROR_CONCURRENT_BID = ''BID_CONCURRENT_BID_ERROR''"
definition BID_ERROR_AUCTION_ENDED :: string where
  "BID_ERROR_AUCTION_ENDED = ''BID_AUCTION_ENDED''"
definition BID_ERROR_AUCTION_NOT_STARTED :: string where
  "BID_ERROR_AUCTION_NOT_STARTED = ''BID_AUCTION_NOT_STARTED''"
definition BID_ERROR_AUCTION_NOT_FOUND :: string where
  "BID_ERROR_AUCTION_NOT_FOUND = ''BID_AUCTION_NOT_FOUND''"
definition BID_ERROR_BID_TOO_LOW :: string where
  "BID_ERROR_BID_TOO_LOW = ''BID_AMOUNT_TOO_LOW''"
definition BID_ERROR_INVALID_AMOUNT :: string where
  "BID_ERROR_INVALID_AMOUNT = ''BID_INVALID_AMOUNT''"
definition BID_ERROR_OWN_AUCTION :: string where
  "BID_ERROR_OWN_AUCTION = ''BID_CANNOT_BID_ON_OWN_AUCTION''"
definition BID_ERROR_PROCESSING_FAILED :: string where
  "BID_ERROR_PROCESSING_FAILED = ''BID_PROCESSING_FAILED''"
definition BID_ERROR_LOCK_ACQUISITION_FAILED :: string where
  "BID_ERROR_LOCK_ACQUISITION_FAILED = ''BID_LOCK_ACQUISITION_FAILED''"

text \<open>The bidding entries of \<open>ERROR_MESSAGES_MAP\<close>, the only ones the bid path looks up.\<close>

definition ERROR_MESSAGES_MAP :: "(string \<times> string) list" where
  "ERROR_MESSAGES_MAP =
     [(BID_ERROR_CONCURRENT_BID, ''Another bid was placed at the same time. Please try again''),
      (BID_ERROR_AUCTION_ENDED, ''This auction has already ended''),
      (BID_ERROR_AUCTION_NOT_STARTED, ''This auction has not started yet''),
      (BID_ERROR_AUCTION_NOT_FOUND, ''Auction not found''),
      (BID_ERROR_BID_TOO_LOW,
         ''Your bid must be higher than the current bid plus minimum increment''),
      (BID_ERROR_INVALID_AMOUNT, ''Invalid bid amount''),
      (BID_ERROR_OWN_AUCTION, ''You cannot bid on your own auction''),
      (BID_ERROR_PROCESSING_FAILED, ''Failed to process bid. Please try again''),
      (BID_ERROR_LOCK_ACQUISITION_FAILED, ''Bid processing is busy. Please try again'')]"

definition getErrorMessageFromCode :: "string \<Rightarrow> string" where
  "getErrorMessageFromCode code =
     (case map_of ERROR_MESSAGES_MAP code of
        Some m \<Rightarrow> m
      | None \<Rightarrow> ''An unknown error occurred'')"

section \<open>The bid processor\<close>

text \<open>
  An error message is a fixed text, or the bid-too-low text built from the required
  amount, the current bid and the increment (the formatting with \<open>toFixed(2)\<close> is left
  out).
\<close>

datatype message = Text string | BidMustBeAtLeast js_number js_number js_number

record BidProcessingResult =
  wasBidSuccessful :: bool
  bidId :: "string option"
  newHighestBidInDollars :: "js_number option"
  previousHighestBidInDollars :: "js_number option"
  bidPlacedAtTimestamp :: "js_date option"
  errorCode :: "string option"
  errorMessage :: "message option"
  processingTimeInMs :: int

record AuctionBidInfo =
  info_auctionItemId :: string
  info_currentHighestBidInDollars :: js_number
  highestBidderUserId :: "string option"
  highestBidderUsername :: "string option"
  info_minimumBidIncrementInDollars :: js_number
  info_auctionEndTimeTimestamp :: js_date
  totalNumberOfBids :: nat

text \<open>
  What one call of \<open>processBidWithDistributedLock\<close> draws from outside: the UUIDs of
  the lock token and of the new bid row, the readings of the clock, and what other
  writers do to the store between the call's read of the auction row and its
  transaction (the identity when nobody else writes in between).
\<close>

record bid_env =
  env_lockUuid :: string
  env_bidId :: string
  env_processingStartTime :: js_date
  env_currentTimestamp :: js_date
  env_bidPlacedAt :: js_date
  env_processingEndTime :: js_date
  env_interference :: "store \<Rightarrow> store"

definition createErrorResult :: "string \<Rightarrow> BidProcessingResult" where
  "createErrorResult code =
     \<lparr>wasBidSuccessful = False, bidId = None, newHighestBidInDollars = None,
      previousHighestBidInDollars = None, bidPlacedAtTimestamp = None,
      errorCode = Some code, errorMessage = Some (Text (getErrorMessageFromCode code)),
      processingTimeInMs = 0\<rparr>"

text \<open>
  The \<open>$transaction\<close> of \<open>processBidTransaction\<close>: the update of the auction row,
  found by its id alone, and the insert of the bid row, both or neither. It throws, and
  leaves the store as it was, when the database is unreachable, the amount does not fit
  the column, the auction row is gone, the bidder is not a user, or the id is taken.
\<close>

definition bid_transaction ::
  "string \<Rightarrow> string \<Rightarrow> js_number \<Rightarrow> js_date \<Rightarrow> string \<Rightarrow> store
     \<Rightarrow> (js_exception + bid) \<times> store" where
  "bid_transaction auctionItemId bidderUserId bidAmountInDollars placedAt freshId st =
     (if \<not> dbUp st then (Inl db_unreachable, st)
      else case store_decimal_12_2 bidAmountInDollars of
        None \<Rightarrow> (Inl (Error ''numeric field overflow''), st)
      | Some bidAmountDecimal \<Rightarrow>
          if findUnique_auctionItem st auctionItemId = None then
            (Inl (Error ''Record to update not found''), st)
          else if findUnique_user st bidderUserId = None then
            (Inl (Error ''Foreign key constraint violated''), st)
          else if freshId \<in> bid_id ` set (bids st) then
            (Inl (Error ''Unique constraint failed''), st)
          else
            (let createdBid =
                   \<lparr>bid_id = freshId, bid_bidAmountInDollars = bidAmountDecimal,
                    bid_placedAtTimestamp = placedAt, bid_wasBidSuccessful = True,
                    bid_bidProcessingTimeInMs = None, bid_auctionItemId = auctionItemId,
                    bid_bidderUserId = bidderUserId\<rparr>
             in (Inr createdBid,
                 (update_auctionItem auctionItemId
                    (\<lambda>a. a\<lparr>currentHighestBidInDollars := bidAmountDecimal,
                            updatedAtTimestamp := placedAt\<rparr>) st)
                 \<lparr>bids := bids st @ [createdBid]\<rparr>)))"

text \<open>\<open>updateAuctionCacheInRedis\<close>: two \<open>SETEX\<close>; a Redis error is caught and logged.\<close>

definition updateAuctionCacheInRedis ::
  "string \<Rightarrow> js_number \<Rightarrow> string \<Rightarrow> redis_state \<Rightarrow> redis_state" where
  "updateAuctionCacheInRedis auctionItemId currentBidInDollars bidderUserId r =
     (let currentBidKey = generateCurrentBidCacheKey auctionItemId;
          highestBidderKey = generateHighestBidderCacheKey auctionItemId;
          r1 = r\<lparr>commands := commands r @
                  [SETEX currentBidKey CACHE_TTL_FOR_AUCTION_STATE_IN_SECONDS
                     (NumStr currentBidInDollars),
                   SETEX highestBidderKey CACHE_TTL_FOR_AUCTION_STATE_IN_SECONDS
                     (Str bidderUserId)]\<rparr>
      in if redisUp r then
           r1\<lparr>kv := (kv r)(currentBidKey \<mapsto> NumStr currentBidInDollars,
                             highestBidderKey \<mapsto> Str bidderUserId)\<rparr>
         else r1)"

definition processBidTransaction ::
  "bid_env \<Rightarrow> string \<Rightarrow> string \<Rightarrow> js_number \<Rightarrow> world
     \<Rightarrow> (js_exception + BidProcessingResult) \<times> world" where
  "processBidTransaction env auctionItemId bidderUserId bidAmountInDollars w =
     (if \<not> dbUp (db w) then (Inl db_unreachable, w)
      else case findUnique_auctionItem (db w) auctionItemId of
        None \<Rightarrow> (Inr (createErrorResult BID_ERROR_AUCTION_NOT_FOUND), w)
      | Some auctionItem \<Rightarrow>
          if currentStatus auctionItem \<noteq> ACTIVE then
            (Inr (createErrorResult BID_ERROR_AUCTION_ENDED), w)
          else if env_currentTimestamp env < auctionStartTimeTimestamp auctionItem then
            (Inr (createErrorResult BID_ERROR_AUCTION_NOT_STARTED), w)
          else if env_currentTimestamp env \<ge> auctionEndTimeTimestamp auctionItem then
            (Inr (createErrorResult BID_ERROR_AUCTION_ENDED), w)
          else if creatorUserId auctionItem = bidderUserId then
            (Inr (createErrorResult BID_ERROR_OWN_AUCTION), w)
          else
            (let currentBidAsNumber = toNumber (currentHighestBidInDollars auctionItem);
                 minimumIncrementAsNumber = toNumber (minimumBidIncrementInDollars auctionItem);
                 minimumRequiredBid = currentBidAsNumber + minimumIncrementAsNumber
             in if bidAmountInDollars < minimumRequiredBid then
                  (Inr \<lparr>wasBidSuccessful = False, bidId = None, newHighestBidInDollars = None,
                        previousHighestBidInDollars = Some currentBidAsNumber,
                        bidPlacedAtTimestamp = None, errorCode = Some BID_ERROR_BID_TOO_LOW,
                        errorMessage = Some (BidMustBeAtLeast minimumRequiredBid
                                               currentBidAsNumber minimumIncrementAsNumber),
                        processingTimeInMs = 0\<rparr>, w)
                else
                  (case bid_transaction auctionItemId bidderUserId bidAmountInDollars
                          (env_bidPlacedAt env) (env_bidId env) (env_interference env (db w)) of
                     (Inl thrown, st') \<Rightarrow> (Inl thrown, w\<lparr>db := st'\<rparr>)
                   | (Inr createdBid, st') \<Rightarrow>
                       (Inr \<lparr>wasBidSuccessful = True, bidId = Some (bid_id createdBid),
                             newHighestBidInDollars = Some bidAmountInDollars,
                             previousHighestBidInDollars = Some currentBidAsNumber,
                             bidPlacedAtTimestamp = Some (env_bidPlacedAt env),
                             errorCode = None, errorMessage = None, processingTimeInMs = 0\<rparr>,
                        w\<lparr>db := st',
                          redis := updateAuctionCacheInRedis auctionItemId bidAmountInDollars
                                     bidderUserId (redis w)\<rparr>))))"

definition processBidWithDistributedLock ::
  "bid_env \<Rightarrow> string \<Rightarrow> string \<Rightarrow> js_number \<Rightarrow> world \<Rightarrow> BidProcessingResult \<times> world" where
  "processBidWithDistributedLock env auctionItemId bidderUserId bidAmountInDollars w =
     (let (lockExecutionResult, w') =
            executeWithDistributedLock (env_lockUuid env) auctionItemId
              (processBidTransaction env auctionItemId bidderUserId bidAmountInDollars)
              LOCK_TTL_FOR_BID_PROCESSING_IN_MILLISECONDS w;
          elapsed = env_processingEndTime env - env_processingStartTime env
      in if \<not> wasLockAcquired lockExecutionResult then
           (\<lparr>wasBidSuccessful = False, bidId = None, newHighestBidInDollars = None,
             previousHighestBidInDollars = None, bidPlacedAtTimestamp = None,
             errorCode = Some BID_ERROR_LOCK_ACQUISITION_FAILED,
             errorMessage =
               Some (Text (getErrorMessageFromCode BID_ERROR_LOCK_ACQUISITION_FAILED)),
             processingTimeInMs = elapsed\<rparr>, w')
         else if \<not> wasExecutionSuccessful lockExecutionResult
                 \<or> executionResult lockExecutionResult = None then
           (\<lparr>wasBidSuccessful = False, bidId = None, newHighestBidInDollars = None,
             previousHighestBidInDollars = None, bidPlacedAtTimestamp = None,
             errorCode = Some BID_ERROR_PROCESSING_FAILED,
             errorMessage =
               Some (Text (case exec_errorMessage lockExecutionResult of
                             None \<Rightarrow> ''Bid processing failed''
                           | Some m \<Rightarrow> if m = [] then ''Bid processing failed'' else m)),
             processingTimeInMs = elapsed\<rparr>, w')
         else
           ((the (executionResult lockExecutionResult))\<lparr>processingTimeInMs := elapsed\<rparr>, w'))"

text \<open>
  \<open>fetchCurrentAuctionBidInfo\<close> reads the store only. \<open>_count.allBidsOnItem\<close> counts
  every bid row of the auction. Any throw inside is caught and gives \<open>null\<close>.
\<close>

definition fetchCurrentAuctionBidInfo :: "store \<Rightarrow> string \<Rightarrow> AuctionBidInfo option" where
  "fetchCurrentAuctionBidInfo st auctionItemId =
     (if \<not> dbUp st then None
      else case findUnique_auctionItem st auctionItemId of
        None \<Rightarrow> None
      | Some auctionItem \<Rightarrow>
          (let bidder =
                 (case findFirst_highestBid st auctionItemId of
                    None \<Rightarrow> Some None
                  | Some highestBid \<Rightarrow>
                      map_option Some (findUnique_user st (bid_bidderUserId highestBid)))
           in case bidder of
                None \<Rightarrow> None
              | Some bidderUser \<Rightarrow>
                  Some \<lparr>info_auctionItemId = ai_id auctionItem,
                        info_currentHighestBidInDollars =
                          toNumber (currentHighestBidInDollars auctionItem),
                        highestBidderUserId =
                          (case bidderUser of None \<Rightarrow> None
                           | Some u \<Rightarrow> if user_id u = [] then None else Some (user_id u)),
                        highestBidderUsername =
                          (case bidderUser of None \<Rightarrow> None
                           | Some u \<Rightarrow>
                               if user_username u = [] then None else Some (user_username u)),
                        info_minimumBidIncrementInDollars =
                          toNumber (minimumBidIncrementInDollars auctionItem),
                        info_auctionEndTimeTimestamp = auctionEndTimeTimestamp auctionItem,
                        totalNumberOfBids =
                          length (filter (\<lambda>b. bid_auctionItemId b = auctionItemId) (bids st))\<rparr>))"

text \<open>
  \<open>recordFailedBidAttempt\<close>: one bid row with \<open>wasBidSuccessful: false\<close>; the column
  default gives \<open>placedAt\<close>. A throw is caught and logged.
\<close>

definition recordFailedBidAttempt ::
  "string \<Rightarrow> js_date \<Rightarrow> string \<Rightarrow> string \<Rightarrow> js_number \<Rightarrow> int \<Rightarrow> store \<Rightarrow> store" where
  "recordFailedBidAttempt freshId dbNow auctionItemId bidderUserId bidAmountInDollars elapsed st =
     (if \<not> dbUp st then st
      else case store_decimal_12_2 bidAmountInDollars of
        None \<Rightarrow> st
      | Some bidAmountDecimal \<Rightarrow>
          if findUnique_auctionItem st auctionItemId = None
             \<or> findUnique_user st bidderUserId = None
             \<or> freshId \<in> bid_id ` set (bids st)
          then st
          else st\<lparr>bids := bids st @
                   [\<lparr>bid_id = freshId, bid_bidAmountInDollars = bidAmountDecimal,
                     bid_placedAtTimestamp = dbNow, bid_wasBidSuccessful = False,
                     bid_bidProcessingTimeInMs = Some elapsed,
                     bid_auctionItemId = auctionItemId, bid_bidderUserId = bidderUserId\<rparr>]\<rparr>)"

section \<open>The socket handlers\<close>

record AuthenticatedSocketData =
  userId :: string
  username :: string

record socket =
  socket_id :: string
  socket_data :: "AuthenticatedSocketData option"

definition getUserDataFromSocket :: "socket \<Rightarrow> AuthenticatedSocketData option" where
  "getUserDataFromSocket s =
     (case socket_data s of
        None \<Rightarrow> None
      | Some d \<Rightarrow> if userId d = [] then None else Some d)"

text \<open>
  A \<open>PLACE_BID\<close> payload. \<open>payload_bidAmountInDollars\<close> is \<open>None\<close> when the value sent
  is not a number; an \<open>auctionItemId\<close> that is missing is the empty string.
\<close>

record PlaceBidPayload =
  payload_auctionItemId :: string
  payload_bidAmountInDollars :: "js_number option"

record BidPlacedErrorPayload =
  err_auctionItemId :: string
  err_errorCode :: string
  err_errorMessage :: message

record BidPlacedSuccessPayload =
  ok_auctionItemId :: string
  ok_bidAmountInDollars :: js_number
  ok_bidId :: string
  ok_bidPlacedAtTimestamp :: js_date

record BidUpdateBroadcastPayload =
  upd_auctionItemId :: string
  upd_newHighestBidInDollars :: js_number
  upd_highestBidderUserId :: string
  upd_highestBidderUsername :: string
  upd_bidPlacedAtTimestamp :: js_date
  upd_totalNumberOfBids :: nat

record AuctionStateSyncPayload =
  sync_auctionItemId :: string
  sync_currentHighestBidInDollars :: js_number
  sync_highestBidderUserId :: "string option"
  sync_highestBidderUsername :: "string option"
  sync_auctionEndTimeTimestamp :: js_date
  sync_currentStatus :: string
  sync_totalNumberOfBids :: nat

record EndedAuction =
  ended_auctionItemId :: string
  ended_winnerUserId :: "string option"
  ended_winnerUsername :: "string option"
  ended_finalBidAmountInDollars :: js_number

datatype event_payload =
    BidPlacedError BidPlacedErrorPayload
  | BidPlacedSuccess BidPlacedSuccessPayload
  | BidUpdateBroadcast BidUpdateBroadcastPayload
  | JoinedAuctionRoom string
  | AuctionStateSync AuctionStateSyncPayload
  | AuctionEndedEvent EndedAuction

text \<open>
  An emission: who receives it (\<open>socket.emit\<close>, \<open>io.to(room).emit\<close> or \<open>io.emit\<close>),
  the event name and the payload.
\<close>

datatype recipients = ThisSocket string | Room string | AllSockets

type_synonym emission = "recipients \<times> string \<times> event_payload"

definition SOCKET_ROOM_PREFIX_FOR_AUCTION :: string where
  "SOCKET_ROOM_PREFIX_FOR_AUCTION = ''auction-room:''"

definition generateAuctionRoomNameFromId :: "string \<Rightarrow> string" where
  "generateAuctionRoomNameFromId auctionItemId = SOCKET_ROOM_PREFIX_FOR_AUCTION @ auctionItemId"

definition handleJoinRoom :: "socket \<Rightarrow> string \<Rightarrow> world \<Rightarrow> emission list \<times> world" where
  "handleJoinRoom sock auctionItemId w =
     (if auctionItemId = [] then ([], w)
      else
        (let roomName = generateAuctionRoomNameFromId auctionItemId;
             w1 = w\<lparr>rooms := (rooms w)(roomName := insert (socket_id sock) (rooms w roomName))\<rparr>;
             joined = (ThisSocket (socket_id sock), ''JOINED_AUCTION_ROOM'',
                       JoinedAuctionRoom auctionItemId)
         in case fetchCurrentAuctionBidInfo (db w1) auctionItemId of
              None \<Rightarrow> ([joined], w1)
            | Some bidInfo \<Rightarrow>
                ([joined,
                  (ThisSocket (socket_id sock), ''AUCTION_STATE_SYNC'',
                   AuctionStateSync
                     \<lparr>sync_auctionItemId = info_auctionItemId bidInfo,
                      sync_currentHighestBidInDollars = info_currentHighestBidInDollars bidInfo,
                      sync_highestBidderUserId = highestBidderUserId bidInfo,
                      sync_highestBidderUsername = highestBidderUsername bidInfo,
                      sync_auctionEndTimeTimestamp = info_auctionEndTimeTimestamp bidInfo,
                      sync_currentStatus = ''ACTIVE'',
                      sync_totalNumberOfBids = totalNumberOfBids bidInfo\<rparr>)], w1)))"

text \<open>
  \<open>handlePlaceBid\<close>. \<open>processBidWithDistributedLock\<close> catches everything it can
  throw, so the handler's own \<open>catch\<close> has no branch here; the server instance is set at
  start-up, so the broadcast is always sent.
\<close>

definition handlePlaceBid ::
  "bid_env \<Rightarrow> socket \<Rightarrow> PlaceBidPayload \<Rightarrow> world \<Rightarrow> emission list \<times> world" where
  "handlePlaceBid env sock payload w =
     (case getUserDataFromSocket sock of
        None \<Rightarrow>
          ([(ThisSocket (socket_id sock), ''BID_PLACED_ERROR'',
             BidPlacedError \<lparr>err_auctionItemId = payload_auctionItemId payload,
                             err_errorCode = ''AUTH_ERROR'',
                             err_errorMessage = Text ''Not authenticated''\<rparr>)], w)
      | Some userData \<Rightarrow>
          (let auctionItemId = payload_auctionItemId payload
           in if auctionItemId = []
                 \<or> (case payload_bidAmountInDollars payload of
                       None \<Rightarrow> True
                     | Some bidAmountInDollars \<Rightarrow> bidAmountInDollars \<le> 0)
              then
                ([(ThisSocket (socket_id sock), ''BID_PLACED_ERROR'',
                   BidPlacedError \<lparr>err_auctionItemId = auctionItemId,
                                   err_errorCode = ''VALIDATION_ERROR'',
                                   err_errorMessage = Text ''Invalid bid data''\<rparr>)], w)
              else
                (let bidAmountInDollars = the (payload_bidAmountInDollars payload);
                     (result, w1) =
                       processBidWithDistributedLock env auctionItemId (userId userData)
                         bidAmountInDollars w
                 in if wasBidSuccessful result then
                      (let bidInfo = fetchCurrentAuctionBidInfo (db w1) auctionItemId
                       in ([(ThisSocket (socket_id sock), ''BID_PLACED_SUCCESS'',
                             BidPlacedSuccess
                               \<lparr>ok_auctionItemId = auctionItemId,
                                ok_bidAmountInDollars = bidAmountInDollars,
                                ok_bidId = the (bidId result),
                                ok_bidPlacedAtTimestamp = the (bidPlacedAtTimestamp result)\<rparr>),
                            (Room (generateAuctionRoomNameFromId auctionItemId),
                             ''BID_UPDATE_BROADCAST'',
                             BidUpdateBroadcast
                               \<lparr>upd_auctionItemId = auctionItemId,
                                upd_newHighestBidInDollars = the (newHighestBidInDollars result),
                                upd_highestBidderUserId = userId userData,
                                upd_highestBidderUsername = username userData,
                                upd_bidPlacedAtTimestamp = the (bidPlacedAtTimestamp result),
                                upd_totalNumberOfBids =
                                  (case bidInfo of
                                     None \<Rightarrow> 1
                                   | Some i \<Rightarrow>
                                       if totalNumberOfBids i = 0 then 1
                                       else totalNumberOfBids i)\<rparr>)], w1))
                    else
                      ([(ThisSocket (socket_id sock), ''BID_PLACED_ERROR'',
                         BidPlacedError
                           \<lparr>err_auctionItemId = auctionItemId,
                            err_errorCode =
                              (case errorCode result of
                                 None \<Rightarrow> ''BID_FAILED''
                               | Some c \<Rightarrow> if c = [] then ''BID_FAILED'' else c),
                            err_errorMessage =
                              (case errorMessage result of
                                 None \<Rightarrow> Text ''Bid failed''
                               | Some m \<Rightarrow> if m = Text [] then Text ''Bid failed'' else m)\<rparr>)],
                       w1))))"

section \<open>The expiry reaper\<close>

text \<open>
  What a call of \<open>markExpiredAuctionsAsEnded\<close> takes from its surroundings. The call
  awaits each of its queries on its own, outside any transaction and without the bid
  lock, so other writers can commit between two of them. The queries are counted from
  0: \<open>updateMany\<close> is query 0, \<open>findMany\<close> query 1, and for the \<open>i\<close>-th auction of the
  loop \<open>findFirst\<close> is query \<open>2 + 2i\<close> and \<open>update\<close> query \<open>3 + 2i\<close>.
  \<open>tick_interference env k\<close> is what other writers do to the store after query \<open>k\<close>
  and before the call's next step. \<open>tick_now\<close> is the \<open>new Date()\<close> of the
  \<open>updateMany\<close> condition, and \<open>tick_updatedAt env k\<close> the time that query \<open>k\<close>, when
  it writes auction rows, puts into their \<open>updated_at\<close> column (the column has no
  default in the migration and no caller supplies it: the client fills it on every
  write).
\<close>

record tick_env =
  tick_now :: js_date
  tick_updatedAt :: "nat \<Rightarrow> js_date"
  tick_interference :: "nat \<Rightarrow> store \<Rightarrow> store"

text \<open>
  The winner loop of \<open>markExpiredAuctionsAsEnded\<close>, from query \<open>k\<close> on. Every query
  throws when the store is unreachable. The update of \<open>winnerUserId\<close> throws when the
  row is gone or the winner is not a user (the column is a foreign key), and the loop
  stops there.
\<close>

fun assign_winners ::
  "tick_env \<Rightarrow> nat \<Rightarrow> auction_item list \<Rightarrow> store \<Rightarrow> (js_exception + unit) \<times> store" where
  "assign_winners env k [] st = (Inr (), st)"
| "assign_winners env k (auction # rest) st =
     (if \<not> dbUp st then (Inl db_unreachable, st)
      else
        (case findFirst_highestBid st (ai_id auction) of
           None \<Rightarrow> assign_winners env (k + 2) rest (tick_interference env k st)
         | Some highestBid \<Rightarrow>
             (let st1 = tick_interference env k st
              in if \<not> dbUp st1 then (Inl db_unreachable, st1)
                 else if findUnique_auctionItem st1 (ai_id auction) = None then
                   (Inl (Error ''Record to update not found''), st1)
                 else if findUnique_user st1 (bid_bidderUserId highestBid) = None then
                   (Inl (Error ''Foreign key constraint violated''), st1)
                 else
                   assign_winners env (k + 2) rest
                     (tick_interference env (k + 1)
                        (update_auctionItem (ai_id auction)
                           (\<lambda>a. a\<lparr>winnerUserId := Some (bid_bidderUserId highestBid),
                                   updatedAtTimestamp := tick_updatedAt env (k + 1)\<rparr>)
                           st1)))))"

definition is_expired :: "js_date \<Rightarrow> auction_item \<Rightarrow> bool" where
  "is_expired now a \<longleftrightarrow> currentStatus a = ACTIVE \<and> auctionEndTimeTimestamp a \<le> now"

text \<open>
  The body of the \<open>try\<close> block: \<open>updateMany\<close> flips every expired active row,
  \<open>findMany\<close> reads every ended row without a winner, the loop assigns winners, and
  the count of flipped rows is returned.
\<close>

definition markExpiredAuctionsAsEnded_try ::
  "tick_env \<Rightarrow> store \<Rightarrow> (js_exception + nat) \<times> store" where
  "markExpiredAuctionsAsEnded_try env st =
     (if \<not> dbUp st then (Inl db_unreachable, st)
      else
        (let count = length (filter (is_expired (tick_now env)) (auction_items st));
             st1 = tick_interference env 0
                     (st\<lparr>auction_items :=
                           map (\<lambda>a. if is_expired (tick_now env) a
                                    then a\<lparr>currentStatus := ENDED,
                                           updatedAtTimestamp := tick_updatedAt env 0\<rparr>
                                    else a)
                             (auction_items st)\<rparr>)
         in if \<not> dbUp st1 then (Inl db_unreachable, st1)
            else
              (let endedAuctions =
                     filter (\<lambda>a. currentStatus a = ENDED \<and> winnerUserId a = None)
                       (auction_items st1)
               in case assign_winners env 2 endedAuctions (tick_interference env 1 st1) of
                    (Inl thrown, st2) \<Rightarrow> (Inl thrown, st2)
                  | (Inr _, st2) \<Rightarrow> (Inr count, st2))))"

definition markExpiredAuctionsAsEnded :: "tick_env \<Rightarrow> store \<Rightarrow> nat \<times> store" where
  "markExpiredAuctionsAsEnded env st =
     (case markExpiredAuctionsAsEnded_try env st of
        (Inl _, st') \<Rightarrow> (0, st')
      | (Inr count, st') \<Rightarrow> (count, st'))"

text \<open>
  \<open>checkExpiredAuctions\<close> reads \<open>result.count\<close> and \<open>result.endedAuctions\<close> of what
  \<open>markExpiredAuctionsAsEnded\<close> returned. \<open>reaper_result\<close> is that value: a bare
  number, which has neither property, or an object that has both.
\<close>

datatype reaper_result = BareCount nat | CountAndEnded nat "EndedAuction list"

definition broadcastEndedAuctions :: "reaper_result \<Rightarrow> emission list" where
  "broadcastEndedAuctions result =
     (case result of
        BareCount _ \<Rightarrow> []
      | CountAndEnded count endedAuctions \<Rightarrow>
          if count > 0 then
            map (\<lambda>auction. (AllSockets, ''auction:ended'', AuctionEndedEvent auction))
              endedAuctions
          else [])"

definition checkExpiredAuctions :: "tick_env \<Rightarrow> world \<Rightarrow> emission list \<times> world" where
  "checkExpiredAuctions env w =
     (let (result, st') = markExpiredAuctionsAsEnded env (db w)
      in (broadcastEndedAuctions (BareCount result), w\<lparr>db := st'\<rparr>))"

section \<open>The specification's winner rule\<close>

text \<open>
  This definition follows the words of the specification, not the code: the winning bid
  is the highest successful bid, ties broken by the earliest \<open>placedAt\<close>, ties within one
  millisecond by the lexicographically smallest \<open>bidId\<close>.
\<close>

definition spec_precedes :: "bid \<Rightarrow> bid \<Rightarrow> bool" where
  "spec_precedes b1 b2 \<longleftrightarrow>
     bid_bidAmountInDollars b1 > bid_bidAmountInDollars b2
     \<or> (bid_bidAmountInDollars b1 = bid_bidAmountInDollars b2
        \<and> (bid_placedAtTimestamp b1 < bid_placedAtTimestamp b2
           \<or> (bid_placedAtTimestamp b1 = bid_placedAtTimestamp b2 \<and> bid_id b1 < bid_id b2)))"

fun spec_winning_bid :: "bid list \<Rightarrow> bid option" where
  "spec_winning_bid [] = None"
| "spec_winning_bid (b # bs) =
     (case spec_winning_bid bs of
        None \<Rightarrow> Some b
      | Some c \<Rightarrow> if spec_precedes c b then Some c else Some b)"

section \<open>Bids in sequence\<close>

text \<open>
  Property P1 of the specification, on the rows of a store: of two successful bids on
  one auction, the one placed later is at least the minimum increment above the other.
\<close>

definition monotonic_price :: "store \<Rightarrow> bool" where
  "monotonic_price st \<longleftrightarrow>
     (\<forall>a\<in>set (auction_items st).
        \<forall>b1\<in>set (successful_bids_on st (ai_id a)).
          \<forall>b2\<in>set (successful_bids_on st (ai_id a)).
            bid_placedAtTimestamp b1 < bid_placedAtTimestamp b2 \<longrightarrow>
              bid_bidAmountInDollars b1 + minimumBidIncrementInDollars a
                \<le> bid_bidAmountInDollars b2)"

text \<open>
  What the bid path keeps true of a store up to time \<open>t\<close>: auction ids are unique (the
  primary key), every minimum increment is positive (\<open>createAuctionItem\<close> refuses less
  than 0.01), and no successful bid is above its auction's current bid or placed after
  \<open>t\<close>.
\<close>

definition price_covers_bids :: "js_date \<Rightarrow> store \<Rightarrow> bool" where
  "price_covers_bids t st \<longleftrightarrow>
     distinct (map ai_id (auction_items st))
     \<and> (\<forall>a\<in>set (auction_items st).
           0 < minimumBidIncrementInDollars a
           \<and> (\<forall>b\<in>set (successful_bids_on st (ai_id a)).
                 bid_bidAmountInDollars b \<le> currentHighestBidInDollars a
                 \<and> bid_placedAtTimestamp b \<le> t))"

text \<open>
  Bids handled one after the other, each to its end before the next starts, as the
  per-auction lock arranges: nobody writes between a call's read and its transaction, and
  the clock does not run backwards from one call to the next.
\<close>

record bid_request =
  req_env :: bid_env
  req_auctionItemId :: string
  req_bidderUserId :: string
  req_bidAmountInDollars :: js_number

fun place_bids :: "bid_request list \<Rightarrow> world \<Rightarrow> BidProcessingResult list \<times> world" where
  "place_bids [] w = ([], w)"
| "place_bids (q # qs) w =
     (let (r, w1) = processBidWithDistributedLock (req_env q) (req_auctionItemId q)
                      (req_bidderUserId q) (req_bidAmountInDollars q) w;
          (rs, w2) = place_bids qs w1
      in (r # rs, w2))"

fun serialised :: "js_date \<Rightarrow> bid_request list \<Rightarrow> bool" where
  "serialised t [] \<longleftrightarrow> True"
| "serialised t (q # qs) \<longleftrightarrow>
     env_interference (req_env q) = (\<lambda>st. st)
     \<and> t \<le> env_bidPlacedAt (req_env q)
     \<and> serialised (env_bidPlacedAt (req_env q)) qs"

section \<open>Example states\<close>

definition demo_users :: "user_row list" where
  "demo_users =
     [\<lparr>user_id = ''userA'', user_username = ''alice''\<rparr>,
      \<lparr>user_id = ''userB'', user_username = ''bob''\<rparr>,
      \<lparr>user_id = ''userC'', user_username = ''carol''\<rparr>]"

definition demo_auction :: auction_item where
  "demo_auction =
     \<lparr>ai_id = ''a1'', startingPriceInDollars = 10000, currentHighestBidInDollars = 11000,
      minimumBidIncrementInDollars = 1000, auctionStartTimeTimestamp = 0,
      auctionEndTimeTimestamp = 1000, currentStatus = ACTIVE, updatedAtTimestamp = 0,
      creatorUserId = ''userA'', winnerUserId = None\<rparr>"

definition demo_store :: store where
  "demo_store = \<lparr>dbUp = True, users = demo_users, auction_items = [demo_auction], bids = []\<rparr>"

definition demo_redis :: redis_state where
  "demo_redis = \<lparr>redisUp = True, kv = Map.empty, commands = []\<rparr>"

definition demo_world :: world where
  "demo_world = \<lparr>db = demo_store, redis = demo_redis, rooms = (\<lambda>_. {})\<rparr>"

definition demo_env :: bid_env where
  "demo_env =
     \<lparr>env_lockUuid = ''token-1'', env_bidId = ''bid-1'', env_processingStartTime = 10,
      env_currentTimestamp = 11, env_bidPlacedAt = 12, env_processingEndTime = 13,
      env_interference = (\<lambda>st. st)\<rparr>"


definition demo_socket :: socket where
  "demo_socket =
     \<lparr>socket_id = ''sock-B'',
      socket_data = Some \<lparr>userId = ''userB'', username = ''bob''\<rparr>\<rparr>"

text \<open>
  A store in which auction \<open>a1\<close> was ended by an earlier tick and never got its winner.
\<close>

definition leftover_store :: store where
  "leftover_store =
     demo_store\<lparr>auction_items := [demo_auction\<lparr>currentStatus := ENDED,
                                                currentHighestBidInDollars := 12000\<rparr>],
                bids := [\<lparr>bid_id = ''bid-1'', bid_bidAmountInDollars = 12000,
                          bid_placedAtTimestamp = 12, bid_wasBidSuccessful = True,
                          bid_bidProcessingTimeInMs = None, bid_auctionItemId = ''a1'',
                          bid_bidderUserId = ''userB''\<rparr>]\<rparr>"

text \<open>
  A reaper tick at time 1000 during which nobody else writes.
\<close>

definition demo_tick :: tick_env where
  "demo_tick =
     \<lparr>tick_now = 1000, tick_updatedAt = (\<lambda>k. 1000 + int k),
      tick_interference = (\<lambda>k st. st)\<rparr>"

text \<open>
  A reaper tick at time 1000 during which a bid lands: user B's bid of 120.00 passed
  its checks at time 999, before the end, and its transaction commits just after the
  loop's \<open>findFirst\<close> for auction \<open>a1\<close> (query 2) has found no bid.
\<close>

definition late_bid_tick :: tick_env where
  "late_bid_tick =
     demo_tick\<lparr>tick_interference :=
                 (\<lambda>k st. if k = 2 then snd (bid_transaction ''a1'' ''userB'' 120 999 ''bid-1'' st)
                         else st)\<rparr>"

text \<open>
  The same interleaving seen from user B's call: it reads the row and draws its
  \<open>placedAt\<close> at time 999, and the reaper's tick runs before its transaction commits.
\<close>

definition late_bid_env :: bid_env where
  "late_bid_env =
     demo_env\<lparr>env_processingStartTime := 998, env_currentTimestamp := 999,
              env_bidPlacedAt := 999, env_processingEndTime := 1001,
              env_interference := (\<lambda>st. snd (markExpiredAuctionsAsEnded demo_tick st))\<rparr>"

text \<open>
  An environment in which this call stalls after drawing its \<open>placedAt\<close>, and user C's
  transaction for 120.00 with \<open>placedAt\<close> = 20 commits before this call's own.
\<close>

definition stalled_env :: bid_env where
  "stalled_env =
     demo_env\<lparr>env_interference :=
                (\<lambda>st. snd (bid_transaction ''a1'' ''userC'' 120 20 ''bid-2'' st))\<rparr>"

definition demo_socket_C :: socket where
  "demo_socket_C =
     \<lparr>socket_id = ''sock-C'',
      socket_data = Some \<lparr>userId = ''userC'', username = ''carol''\<rparr>\<rparr>"

definition demo_requests :: "bid_request list" where
  "demo_requests =
     [\<lparr>req_env = demo_env, req_auctionItemId = ''a1'', req_bidderUserId = ''userB'',
       req_bidAmountInDollars = 120\<rparr>,
      \<lparr>req_env = demo_env\<lparr>env_lockUuid := ''token-2'', env_bidId := ''bid-2'',
                            env_processingStartTime := 20, env_currentTimestamp := 21,
                            env_bidPlacedAt := 22, env_processingEndTime := 23\<rparr>,
       req_auctionItemId = ''a1'', req_bidderUserId = ''userC'',
       req_bidAmountInDollars = 130\<rparr>]"

section \<open>The shape of a bid's outcome\<close>

lemma bid_transaction_throws:
  "bid_transaction a u x t i st = (Inl e, st') \<Longrightarrow> st' = st"
  by (auto simp: bid_transaction_def Let_def split: if_splits option.splits)

lemma bid_transaction_commits:
  assumes "bid_transaction a u x t i st = (Inr b, st')"
  shows "\<exists>c. store_decimal_12_2 x = Some c
           \<and> b = \<lparr>bid_id = i, bid_bidAmountInDollars = c, bid_placedAtTimestamp = t,
                  bid_wasBidSuccessful = True, bid_bidProcessingTimeInMs = None,
                  bid_auctionItemId = a, bid_bidderUserId = u\<rparr>
           \<and> st' = (update_auctionItem a
                      (\<lambda>r. r\<lparr>currentHighestBidInDollars := c, updatedAtTimestamp := t\<rparr>) st)
                   \<lparr>bids := bids st @ [b]\<rparr>
           \<and> findUnique_auctionItem st a \<noteq> None"
  using assms
  by (auto simp: bid_transaction_def Let_def split: if_splits option.splits)

lemma processBidTransaction_throws:
  assumes "processBidTransaction env a u x w = (Inl e, w')"
  shows "redis w' = redis w \<and> rooms w' = rooms w
         \<and> (db w' = db w \<or> db w' = env_interference env (db w))"
  using assms
  by (auto simp: processBidTransaction_def Let_def
           split: if_splits option.splits sum.splits prod.splits
           dest: bid_transaction_throws)

lemma processBidTransaction_rejects:
  assumes "processBidTransaction env a u x w = (Inr r, w')" and "\<not> wasBidSuccessful r"
  shows "w' = w \<and> errorCode r \<in> Some ` {BID_ERROR_AUCTION_NOT_FOUND, BID_ERROR_AUCTION_ENDED,
            BID_ERROR_AUCTION_NOT_STARTED, BID_ERROR_OWN_AUCTION, BID_ERROR_BID_TOO_LOW}"
  using assms
  by (auto simp: processBidTransaction_def Let_def createErrorResult_def
           split: if_splits option.splits sum.splits prod.splits)

lemma processBidTransaction_accepts:
  assumes "processBidTransaction env a u x w = (Inr r, w')" and "wasBidSuccessful r"
  shows "\<exists>row b. findUnique_auctionItem (db w) a = Some row
           \<and> currentStatus row = ACTIVE
           \<and> auctionStartTimeTimestamp row \<le> env_currentTimestamp env
           \<and> env_currentTimestamp env < auctionEndTimeTimestamp row
           \<and> creatorUserId row \<noteq> u
           \<and> toNumber (currentHighestBidInDollars row)
               + toNumber (minimumBidIncrementInDollars row) \<le> x
           \<and> bid_transaction a u x (env_bidPlacedAt env) (env_bidId env)
                (env_interference env (db w)) = (Inr b, db w')
           \<and> r = \<lparr>wasBidSuccessful = True, bidId = Some (bid_id b),
                   newHighestBidInDollars = Some x,
                   previousHighestBidInDollars = Some (toNumber (currentHighestBidInDollars row)),
                   bidPlacedAtTimestamp = Some (env_bidPlacedAt env),
                   errorCode = None, errorMessage = None, processingTimeInMs = 0\<rparr>
           \<and> redis w' = updateAuctionCacheInRedis a x u (redis w)
           \<and> rooms w' = rooms w"
  using assms
  by (auto simp: processBidTransaction_def Let_def createErrorResult_def
           split: if_splits option.splits sum.splits prod.splits)

lemma processBidWithDistributedLock_cases:
  assumes run: "processBidWithDistributedLock env a u x w = (r, w')"
      and acq: "acquireDistributedLockForBidProcessing (env_lockUuid env) a
                  LOCK_TTL_FOR_BID_PROCESSING_IN_MILLISECONDS (redis w) = (acq, r1)"
      and cb: "processBidTransaction env a u x (w\<lparr>redis := r1\<rparr>) = (outcome, w2)"
  shows "if \<not> wasLockAcquiredSuccessfully acq then
           db w' = db w \<and> rooms w' = rooms w \<and> \<not> wasBidSuccessful r
           \<and> errorCode r = Some BID_ERROR_LOCK_ACQUISITION_FAILED
         else
           db w' = db w2 \<and> rooms w' = rooms w2
           \<and> (case outcome of
                 Inl e \<Rightarrow> \<not> wasBidSuccessful r \<and> errorCode r = Some BID_ERROR_PROCESSING_FAILED
               | Inr r0 \<Rightarrow> r = r0\<lparr>processingTimeInMs :=
                                   env_processingEndTime env - env_processingStartTime env\<rparr>)"
proof -
  obtain res w3 where ex: "executeWithDistributedLock (env_lockUuid env) a
      (processBidTransaction env a u x) LOCK_TTL_FOR_BID_PROCESSING_IN_MILLISECONDS w = (res, w3)"
    by (cases "executeWithDistributedLock (env_lockUuid env) a
      (processBidTransaction env a u x) LOCK_TTL_FOR_BID_PROCESSING_IN_MILLISECONDS w")
  show ?thesis
  proof (cases "wasLockAcquiredSuccessfully acq")
    case False
    with acq cb ex run show ?thesis
      by (auto simp: processBidWithDistributedLock_def executeWithDistributedLock_def Let_def)
  next
    case True
    with acq cb ex run show ?thesis
      by (auto simp: processBidWithDistributedLock_def executeWithDistributedLock_def Let_def
               split: sum.splits)
  qed
qed

lemma failed_bid_store:
  assumes run: "processBidWithDistributedLock env a u x w = (r, w')"
      and failed: "\<not> wasBidSuccessful r"
  shows "db w' = db w \<or> db w' = env_interference env (db w)"
proof -
  obtain acq r1 where acq: "acquireDistributedLockForBidProcessing (env_lockUuid env) a
                  LOCK_TTL_FOR_BID_PROCESSING_IN_MILLISECONDS (redis w) = (acq, r1)"
    by (cases "acquireDistributedLockForBidProcessing (env_lockUuid env) a
                  LOCK_TTL_FOR_BID_PROCESSING_IN_MILLISECONDS (redis w)")
  obtain outcome w2 where cb: "processBidTransaction env a u x (w\<lparr>redis := r1\<rparr>) = (outcome, w2)"
    by (cases "processBidTransaction env a u x (w\<lparr>redis := r1\<rparr>)")
  note cases = processBidWithDistributedLock_cases[OF run acq cb]
  show ?thesis
  proof (cases "wasLockAcquiredSuccessfully acq")
    case False
    with cases show ?thesis by simp
  next
    case True
    with cases have dbw: "db w' = db w2" by simp
    show ?thesis
    proof (cases outcome)
      case (Inl e)
      from processBidTransaction_throws[OF cb[unfolded Inl]] dbw show ?thesis by simp
    next
      case (Inr r0)
      with True cases failed have "\<not> wasBidSuccessful r0" by auto
      from processBidTransaction_rejects[OF cb[unfolded Inr] this] dbw show ?thesis by simp
    qed
  qed
qed

lemma accepted_bid_store:
  assumes run: "processBidWithDistributedLock env a u x w = (r, w')"
      and ok: "wasBidSuccessful r"
  shows "\<exists>row b. findUnique_auctionItem (db w) a = Some row
           \<and> toNumber (currentHighestBidInDollars row)
               + toNumber (minimumBidIncrementInDollars row) \<le> x
           \<and> bid_transaction a u x (env_bidPlacedAt env) (env_bidId env)
                (env_interference env (db w)) = (Inr b, db w')
           \<and> previousHighestBidInDollars r = Some (toNumber (currentHighestBidInDollars row))
           \<and> newHighestBidInDollars r = Some x"
proof -
  obtain acq r1 where acq: "acquireDistributedLockForBidProcessing (env_lockUuid env) a
                  LOCK_TTL_FOR_BID_PROCESSING_IN_MILLISECONDS (redis w) = (acq, r1)"
    by (cases "acquireDistributedLockForBidProcessing (env_lockUuid env) a
                  LOCK_TTL_FOR_BID_PROCESSING_IN_MILLISECONDS (redis w)")
  obtain outcome w2 where cb: "processBidTransaction env a u x (w\<lparr>redis := r1\<rparr>) = (outcome, w2)"
    by (cases "processBidTransaction env a u x (w\<lparr>redis := r1\<rparr>)")
  note cases = processBidWithDistributedLock_cases[OF run acq cb]
  from cases ok have got: "wasLockAcquiredSuccessfully acq" by (auto split: if_splits)
  with cases have dbw: "db w' = db w2" by simp
  from cases got ok obtain r0 where out: "outcome = Inr r0"
    and r: "r = r0\<lparr>processingTimeInMs := env_processingEndTime env - env_processingStartTime env\<rparr>"
    by (cases outcome) auto
  from r ok have ok0: "wasBidSuccessful r0" by simp
  from processBidTransaction_accepts[OF cb[unfolded out] ok0] r dbw show ?thesis
    by auto
qed

section \<open>Amounts as the columns store them\<close>

lemma round_half_away_of_int: "round_half_away (of_int k) = k"
proof (cases "0 \<le> k")
  case True
  then show ?thesis by (simp add: round_half_away_def floor_eq_iff)
next
  case False
  then have "\<lfloor>- rat_of_int k + 1 / 2\<rfloor> = - k"
    by (simp add: floor_eq_iff)
  with False show ?thesis by (simp add: round_half_away_def)
qed

lemma stored_amount_exact_iff:
  "toNumber (round_half_away (x * 100)) = x \<longleftrightarrow> (\<exists>k::int. x * 100 = of_int k)"
proof
  assume "toNumber (round_half_away (x * 100)) = x"
  then have "x * 100 = of_int (round_half_away (x * 100))"
    by (simp add: toNumber_def field_simps)
  then show "\<exists>k::int. x * 100 = of_int k" ..
next
  assume "\<exists>k::int. x * 100 = of_int k"
  then obtain k :: int where k: "x * 100 = of_int k" ..
  then show "toNumber (round_half_away (x * 100)) = x"
    by (simp add: round_half_away_of_int toNumber_def field_simps)
qed

lemma store_decimal_Some:
  "store_decimal_12_2 x = Some c \<Longrightarrow> c = round_half_away (x * 100)"
  by (auto simp: store_decimal_12_2_def Let_def split: if_splits)

lemma round_half_away_ge:
  assumes "of_int n \<le> y"
  shows "n \<le> round_half_away y"
proof (cases "0 \<le> y")
  case True
  with assms show ?thesis by (simp add: round_half_away_def le_floor_iff)
next
  case False
  from assms have "- y + 1 / 2 < of_int (- n) + 1" by simp
  then have "\<lfloor>- y + 1 / 2\<rfloor> \<le> - n" by (simp only: floor_le_iff)
  with False show ?thesis by (simp add: round_half_away_def)
qed

lemma stored_amount_covers_required:
  assumes "toNumber cur + toNumber inc \<le> x" and "store_decimal_12_2 x = Some c"
  shows "cur + inc \<le> c"
proof -
  from assms(1) have "of_int (cur + inc) \<le> x * 100"
    by (simp add: toNumber_def field_simps)
  then have "cur + inc \<le> round_half_away (x * 100)" by (rule round_half_away_ge)
  with store_decimal_Some[OF assms(2)] show ?thesis by simp
qed

section \<open>Evaluating the example states\<close>

lemmas demo_defs = demo_users_def demo_auction_def demo_store_def demo_redis_def demo_world_def
  demo_env_def

lemmas code_defs = processBidWithDistributedLock_def executeWithDistributedLock_def
  acquireDistributedLockForBidProcessing_def releaseDistributedLockForBidProcessing_def
  processBidTransaction_def bid_transaction_def updateAuctionCacheInRedis_def
  findUnique_auctionItem_def findUnique_user_def update_auctionItem_def
  toNumber_def createErrorResult_def
  generateBidProcessingLockKey_def REDIS_KEY_PREFIX_FOR_BID_PROCESSING_LOCK_def
  generateCurrentBidCacheKey_def generateHighestBidderCacheKey_def
  LOCK_TTL_FOR_BID_PROCESSING_IN_MILLISECONDS_def CACHE_TTL_FOR_AUCTION_STATE_IN_SECONDS_def

lemma store_decimal_examples:
  "store_decimal_12_2 120 = Some 12000"
  "store_decimal_12_2 (120006 / 1000) = Some 12001"
  "store_decimal_12_2 (60003 / 500) = Some 12001"
  "store_decimal_12_2 130 = Some 13000"
  unfolding store_decimal_12_2_def round_half_away_def by (simp_all add: floor_eq_iff)

lemmas handler_defs = handlePlaceBid_def getUserDataFromSocket_def demo_socket_def
  fetchCurrentAuctionBidInfo_def findFirst_highestBid_def successful_bids_on_def
  generateAuctionRoomNameFromId_def SOCKET_ROOM_PREFIX_FOR_AUCTION_def

lemmas reaper_defs = markExpiredAuctionsAsEnded_def markExpiredAuctionsAsEnded_try_def
  is_expired_def findFirst_highestBid_def successful_bids_on_def findUnique_user_def
  findUnique_auctionItem_def update_auctionItem_def demo_tick_def

lemmas tick_defs = checkExpiredAuctions_def broadcastEndedAuctions_def

lemma stalled_bid_store:
  "wasBidSuccessful (fst (processBidWithDistributedLock stalled_env ''a1'' ''userB'' 120 demo_world))"
  "db (snd (processBidWithDistributedLock stalled_env ''a1'' ''userB'' 120 demo_world)) =
     \<lparr>dbUp = True, users = demo_users,
      auction_items = [demo_auction\<lparr>currentHighestBidInDollars := 12000,
                                    updatedAtTimestamp := 12\<rparr>],
      bids = [\<lparr>bid_id = ''bid-2'', bid_bidAmountInDollars = 12000,
               bid_placedAtTimestamp = 20, bid_wasBidSuccessful = True,
               bid_bidProcessingTimeInMs = None, bid_auctionItemId = ''a1'',
               bid_bidderUserId = ''userC''\<rparr>,
              \<lparr>bid_id = ''bid-1'', bid_bidAmountInDollars = 12000,
               bid_placedAtTimestamp = 12, bid_wasBidSuccessful = True,
               bid_bidProcessingTimeInMs = None, bid_auctionItemId = ''a1'',
               bid_bidderUserId = ''userB''\<rparr>]\<rparr>"
  by (simp_all add: stalled_env_def demo_defs code_defs store_decimal_examples Let_def)

section \<open>The lock is released on every path\<close>

lemma acquire_cases:
  "acquireDistributedLockForBidProcessing u a ttl r = (acq, r1) \<Longrightarrow>
   commands r1 = commands r @ [SET_PX_NX (generateBidProcessingLockKey a) u ttl] \<and>
   redisUp r1 = redisUp r \<and>
   (if wasLockAcquiredSuccessfully acq
    then uniqueLockIdentifier acq = Some u \<and> kv r1 = (kv r)(generateBidProcessingLockKey a \<mapsto> Str u)
    else uniqueLockIdentifier acq = None \<and> kv r1 = kv r)"
  by (auto simp: acquireDistributedLockForBidProcessing_def Let_def split: if_splits)

lemma release_effect:
  "commands (snd (releaseDistributedLockForBidProcessing a u r)) =
     commands r @ [EVAL_SAFE_LOCK_RELEASE (generateBidProcessingLockKey a) u]"
  "redisUp r \<Longrightarrow> kv (snd (releaseDistributedLockForBidProcessing a u r)) (generateBidProcessingLockKey a) \<noteq> Some (Str u)"
  by (auto simp: releaseDistributedLockForBidProcessing_def Let_def)

text \<open>
  C7: \<open>executeWithDistributedLock\<close> releases on every exit path. When the lock was
  acquired, then whether the callback returned or threw, the release script for this
  call's key and token is the last command sent to Redis, the key no longer holds the
  token if Redis could be reached, and the result reports the acquired lock. When the
  lock was not acquired, the result and the state are fixed without the callback: the
  callback is not run, the result says the lock was not acquired, and the only trace in
  Redis is the failed \<open>SET\<close>; \<open>processBidWithDistributedLock\<close> then answers with the
  lock-acquisition-failed code and leaves the store alone.
\<close>

theorem lock_released_on_every_exit_path:
  fixes callback :: "world \<Rightarrow> (js_exception + 'a) \<times> world"
  assumes acq: "acquireDistributedLockForBidProcessing u a ttl (redis w) = (acq, r1)"
      and cb: "callback (w\<lparr>redis := r1\<rparr>) = (outcome, w2)"
      and ex: "executeWithDistributedLock u a callback ttl w = (res, w')"
  shows "(wasLockAcquiredSuccessfully acq \<longrightarrow>
            wasLockAcquired res
          \<and> commands (redis w') =
              commands (redis w2) @ [EVAL_SAFE_LOCK_RELEASE (generateBidProcessingLockKey a) u]
          \<and> (redisUp (redis w2) \<longrightarrow>
               kv (redis w') (generateBidProcessingLockKey a) \<noteq> Some (Str u))
          \<and> db w' = db w2
          \<and> (case outcome of
               Inr v \<Rightarrow> wasExecutionSuccessful res \<and> executionResult res = Some v
             | Inl e \<Rightarrow> \<not> wasExecutionSuccessful res \<and> executionResult res = None))
       \<and> (\<not> wasLockAcquiredSuccessfully acq \<longrightarrow>
            res = \<lparr>wasExecutionSuccessful = False, executionResult = None,
                   exec_errorMessage = lock_errorMessage acq, wasLockAcquired = False\<rparr>
          \<and> w' = w\<lparr>redis := r1\<rparr>
          \<and> commands r1 = commands (redis w) @ [SET_PX_NX (generateBidProcessingLockKey a) u ttl]
          \<and> kv r1 = kv (redis w)
          \<and> (u = env_lockUuid env \<and> ttl = LOCK_TTL_FOR_BID_PROCESSING_IN_MILLISECONDS \<longrightarrow>
               errorCode (fst (processBidWithDistributedLock env a bidder amount w))
                 = Some BID_ERROR_LOCK_ACQUISITION_FAILED
             \<and> db (snd (processBidWithDistributedLock env a bidder amount w)) = db w))"
proof (cases "wasLockAcquiredSuccessfully acq")
  case False
  have "errorCode (fst (processBidWithDistributedLock env a bidder amount w))
          = Some BID_ERROR_LOCK_ACQUISITION_FAILED
        \<and> db (snd (processBidWithDistributedLock env a bidder amount w)) = db w"
    if "u = env_lockUuid env" "ttl = LOCK_TTL_FOR_BID_PROCESSING_IN_MILLISECONDS"
    using processBidWithDistributedLock_cases[OF surjective_pairing acq[unfolded that]
            surjective_pairing, of bidder amount] False
    by simp
  with False acq ex acquire_cases[OF acq] show ?thesis
    by (simp add: executeWithDistributedLock_def)
next
  case True
  with acquire_cases[OF acq] have tok: "the (uniqueLockIdentifier acq) = u" by simp
  from True acq cb ex tok
  have res: "w' = w2\<lparr>redis := snd (releaseDistributedLockForBidProcessing a u (redis w2))\<rparr>"
    and out: "res = (case outcome of
                 Inr returned \<Rightarrow>
                   \<lparr>wasExecutionSuccessful = True, executionResult = Some returned,
                     exec_errorMessage = None, wasLockAcquired = True\<rparr>
               | Inl executionError \<Rightarrow>
                   \<lparr>wasExecutionSuccessful = False, executionResult = None,
                     exec_errorMessage =
                       Some (case executionError of
                               Error message \<Rightarrow> message
                             | NonError \<Rightarrow> ''Unknown error during locked execution''),
                     wasLockAcquired = True\<rparr>)"
    by (auto simp: executeWithDistributedLock_def Let_def split: sum.splits)
  from True res out release_effect[where a=a and u=u and r="redis w2"] show ?thesis
    by (auto split: sum.splits)
qed


theorem lock_released_on_every_exit_path_witness:
  "(let cb = (\<lambda>w. (Inl (Error ''boom'') :: js_exception + nat, w));
        (res, w') = executeWithDistributedLock ''token-1'' ''a1'' cb 5000 demo_world
    in wasLockAcquired res \<and> \<not> wasExecutionSuccessful res
       \<and> commands (redis w') =
            [SET_PX_NX ''lock:bid-processing:a1'' ''token-1'' 5000,
             EVAL_SAFE_LOCK_RELEASE ''lock:bid-processing:a1'' ''token-1'']
       \<and> kv (redis w') ''lock:bid-processing:a1'' = None)
   \<and> (let held = demo_world\<lparr>redis := demo_redis\<lparr>kv := [''lock:bid-processing:a1'' \<mapsto> Str ''other'']\<rparr>\<rparr>;
           cb = (\<lambda>w. (Inr (1::nat), w\<lparr>db := (db w)\<lparr>dbUp := False\<rparr>\<rparr>));
           (res, w') = executeWithDistributedLock ''token-1'' ''a1'' cb 5000 held
       in \<not> wasLockAcquired res \<and> executionResult res = None \<and> db w' = db held
          \<and> kv (redis w') ''lock:bid-processing:a1'' = Some (Str ''other'')
          \<and> errorCode (fst (processBidWithDistributedLock demo_env ''a1'' ''userB'' 120 held))
              = Some ''BID_LOCK_ACQUISITION_FAILED'')"
proof -
  let ?cb1 = "\<lambda>w. (Inl (Error ''boom'') :: js_exception + nat, w)"
  let ?cb2 = "\<lambda>w. (Inr (1::nat), w\<lparr>db := (db w)\<lparr>dbUp := False\<rparr>\<rparr>)"
  let ?held = "demo_world\<lparr>redis := demo_redis\<lparr>kv := [''lock:bid-processing:a1'' \<mapsto> Str ''other'']\<rparr>\<rparr>"
  obtain acq1 r1 where a1: "acquireDistributedLockForBidProcessing ''token-1'' ''a1'' 5000 (redis demo_world) = (acq1, r1)"
    by (cases "acquireDistributedLockForBidProcessing ''token-1'' ''a1'' 5000 (redis demo_world)")
  obtain res1 w1 where e1: "executeWithDistributedLock ''token-1'' ''a1'' ?cb1 5000 demo_world = (res1, w1)"
    by (cases "executeWithDistributedLock ''token-1'' ''a1'' ?cb1 5000 demo_world")
  obtain acq2 r2 where a2: "acquireDistributedLockForBidProcessing ''token-1'' ''a1'' 5000 (redis ?held) = (acq2, r2)"
    by (cases "acquireDistributedLockForBidProcessing ''token-1'' ''a1'' 5000 (redis ?held)")
  obtain res2 w2 where e2: "executeWithDistributedLock ''token-1'' ''a1'' ?cb2 5000 ?held = (res2, w2)"
    by (cases "executeWithDistributedLock ''token-1'' ''a1'' ?cb2 5000 ?held")
  have ok1: "wasLockAcquiredSuccessfully acq1" and r1: "r1 = \<lparr>redisUp = True, kv = [''lock:bid-processing:a1'' \<mapsto> Str ''token-1''], commands = [SET_PX_NX ''lock:bid-processing:a1'' ''token-1'' 5000]\<rparr>"
    using a1 by (auto simp: acquireDistributedLockForBidProcessing_def demo_world_def demo_redis_def
        generateBidProcessingLockKey_def REDIS_KEY_PREFIX_FOR_BID_PROCESSING_LOCK_def Let_def)
  have ko2: "\<not> wasLockAcquiredSuccessfully acq2"
    using a2 by (auto simp: acquireDistributedLockForBidProcessing_def demo_world_def demo_redis_def
        generateBidProcessingLockKey_def REDIS_KEY_PREFIX_FOR_BID_PROCESSING_LOCK_def Let_def)
  have k: "generateBidProcessingLockKey ''a1'' = ''lock:bid-processing:a1''"
    by (simp add: generateBidProcessingLockKey_def REDIS_KEY_PREFIX_FOR_BID_PROCESSING_LOCK_def)
  from lock_released_on_every_exit_path[OF a1 _ e1, of "Inl (Error ''boom'')" "demo_world\<lparr>redis := r1\<rparr>"] ok1 r1 k
  have p1: "wasLockAcquired res1 \<and> \<not> wasExecutionSuccessful res1
       \<and> commands (redis w1) =
            [SET_PX_NX ''lock:bid-processing:a1'' ''token-1'' 5000,
             EVAL_SAFE_LOCK_RELEASE ''lock:bid-processing:a1'' ''token-1'']" 
    by simp
  have p1': "kv (redis w1) ''lock:bid-processing:a1'' = None"
    using e1 by (auto simp: executeWithDistributedLock_def acquireDistributedLockForBidProcessing_def
        releaseDistributedLockForBidProcessing_def demo_world_def demo_redis_def
        generateBidProcessingLockKey_def REDIS_KEY_PREFIX_FOR_BID_PROCESSING_LOCK_def Let_def)
  from lock_released_on_every_exit_path[OF a2 _ e2,
         of "Inr 1" "(?held\<lparr>redis := r2\<rparr>)\<lparr>db := (db ?held)\<lparr>dbUp := False\<rparr>\<rparr>"
            demo_env "''userB''" 120] ko2
  have p2: "\<not> wasLockAcquired res2 \<and> executionResult res2 = None \<and> db w2 = db ?held
          \<and> kv (redis w2) ''lock:bid-processing:a1'' = Some (Str ''other'')
          \<and> errorCode (fst (processBidWithDistributedLock demo_env ''a1'' ''userB'' 120 ?held))
              = Some ''BID_LOCK_ACQUISITION_FAILED''"
    by (simp add: demo_world_def demo_redis_def demo_env_def
          LOCK_TTL_FOR_BID_PROCESSING_IN_MILLISECONDS_def BID_ERROR_LOCK_ACQUISITION_FAILED_def)
  from p1 p1' p2 e1 e2 show ?thesis by (simp add: Let_def)
qed

section \<open>The update of the auction row\<close>


lemma find_map_keep:
  assumes "\<And>x. P (f x) = P x"
  shows "find P (map f xs) = map_option f (find P xs)"
  using assms by (induction xs) auto

lemma findUnique_after_update:
  assumes "\<And>r. ai_id (f r) = ai_id r"
  shows "findUnique_auctionItem (update_auctionItem a f st) a' =
           map_option (\<lambda>r. if ai_id r = a then f r else r) (findUnique_auctionItem st a')"
  unfolding findUnique_auctionItem_def update_auctionItem_def
  using assms by (simp add: find_map_keep)

lemma committed_row:
  assumes "bid_transaction a u x t i st = (Inr b, st')"
  shows "\<exists>row c. findUnique_auctionItem st' a = Some row \<and> store_decimal_12_2 x = Some c
           \<and> currentHighestBidInDollars row = c \<and> updatedAtTimestamp row = t
           \<and> bid_bidAmountInDollars b = c \<and> bids st' = bids st @ [b]
           \<and> (\<exists>row0. findUnique_auctionItem st a = Some row0
                 \<and> row = row0\<lparr>currentHighestBidInDollars := c, updatedAtTimestamp := t\<rparr>)"
proof -
  from bid_transaction_commits[OF assms] obtain c where
    c: "store_decimal_12_2 x = Some c" and
    b: "b = \<lparr>bid_id = i, bid_bidAmountInDollars = c, bid_placedAtTimestamp = t,
                  bid_wasBidSuccessful = True, bid_bidProcessingTimeInMs = None,
                  bid_auctionItemId = a, bid_bidderUserId = u\<rparr>" and
    st': "st' = (update_auctionItem a
                      (\<lambda>r. r\<lparr>currentHighestBidInDollars := c, updatedAtTimestamp := t\<rparr>) st)
                   \<lparr>bids := bids st @ [b]\<rparr>" and
    ex: "findUnique_auctionItem st a \<noteq> None" by blast
  from ex obtain row0 where row0: "findUnique_auctionItem st a = Some row0" by blast
  then have id0: "ai_id row0 = a"
    by (auto simp: findUnique_auctionItem_def find_Some_iff)
  have "findUnique_auctionItem st' a =
          findUnique_auctionItem (update_auctionItem a
                      (\<lambda>r. r\<lparr>currentHighestBidInDollars := c, updatedAtTimestamp := t\<rparr>) st) a"
    unfolding st' by (simp add: findUnique_auctionItem_def)
  also have "\<dots> = Some (row0\<lparr>currentHighestBidInDollars := c, updatedAtTimestamp := t\<rparr>)"
    by (simp add: findUnique_after_update row0 id0)
  finally show ?thesis using c b st' row0 by simp
qed






section \<open>Failed bids\<close>

lemma recordFailedBidAttempt_keeps:
  "auction_items (recordFailedBidAttempt i t a u x ms st) = auction_items st
   \<and> filter bid_wasBidSuccessful (bids (recordFailedBidAttempt i t a u x ms st))
       = filter bid_wasBidSuccessful (bids st)"
  by (simp add: recordFailedBidAttempt_def split: option.splits)

text \<open>
  C8: a call of \<open>processBidWithDistributedLock\<close> that returns an unsuccessful result
  wrote nothing to the store: the store is the one before the call, or that one as other
  writers changed it meanwhile. \<open>recordFailedBidAttempt\<close> afterwards changes no
  auction row and adds no successful bid.
\<close>

theorem failed_bid_changes_nothing:
  assumes run: "processBidWithDistributedLock env a u x w = (r, w')"
      and failed: "\<not> wasBidSuccessful r"
  shows "(db w' = db w \<or> db w' = env_interference env (db w))
       \<and> auction_items (recordFailedBidAttempt i t a u x ms (db w')) = auction_items (db w')
       \<and> filter bid_wasBidSuccessful (bids (recordFailedBidAttempt i t a u x ms (db w')))
           = filter bid_wasBidSuccessful (bids (db w'))"
  using failed_bid_store[OF run failed] recordFailedBidAttempt_keeps by blast

theorem failed_bid_changes_nothing_witness:
  "(let (r, w') = processBidWithDistributedLock demo_env ''a1'' ''userC'' 115 demo_world
    in \<not> wasBidSuccessful r \<and> errorCode r = Some BID_ERROR_BID_TOO_LOW
       \<and> db w' = db demo_world
       \<and> auction_items (recordFailedBidAttempt ''bid-9'' 14 ''a1'' ''userC'' 115 3 (db w'))
           = auction_items (db demo_world))"
proof -
  obtain r w' where run: "processBidWithDistributedLock demo_env ''a1'' ''userC'' 115 demo_world = (r, w')"
    by (cases "processBidWithDistributedLock demo_env ''a1'' ''userC'' 115 demo_world")
  have ko: "\<not> wasBidSuccessful r" and ec: "errorCode r = Some BID_ERROR_BID_TOO_LOW"
    using run by (auto simp add: demo_defs code_defs Let_def)
  have same: "env_interference demo_env (db demo_world) = db demo_world"
    by (simp add: demo_env_def)
  from failed_bid_changes_nothing[OF run ko, of "''bid-9''" 14 3] ko ec run same show ?thesis
    by auto
qed

section \<open>The guard on the amount\<close>

text \<open>
  C2, as stated, fails twice. A bid of -5 is rejected with the code
  \<open>VALIDATION_ERROR\<close>, not with the invalid-amount code; and a bid of 120.006, which has
  three fractional digits, is not rejected at all: the lock is taken, the bid row is
  written and the bidder is told of the success.
\<close>

theorem invalid_amount_counterexample:
  "(let (out, w') = handlePlaceBid demo_env demo_socket
                      \<lparr>payload_auctionItemId = ''a1'', payload_bidAmountInDollars = Some (- 5)\<rparr>
                      demo_world
    in out = [(ThisSocket ''sock-B'', ''BID_PLACED_ERROR'',
               BidPlacedError \<lparr>err_auctionItemId = ''a1'', err_errorCode = ''VALIDATION_ERROR'',
                               err_errorMessage = Text ''Invalid bid data''\<rparr>)]
       \<and> ''VALIDATION_ERROR'' \<noteq> BID_ERROR_INVALID_AMOUNT)
   \<and> (let (out, w') = handlePlaceBid demo_env demo_socket
                      \<lparr>payload_auctionItemId = ''a1'',
                       payload_bidAmountInDollars = Some (120006 / 1000)\<rparr>
                      demo_world
       in map (fst \<circ> snd) out = [''BID_PLACED_SUCCESS'', ''BID_UPDATE_BROADCAST'']
          \<and> commands (redis w') \<noteq> []
          \<and> map bid_bidAmountInDollars (bids (db w')) = [12001])"
  by (simp add: demo_defs code_defs handler_defs store_decimal_examples Let_def
        BID_ERROR_INVALID_AMOUNT_def)

text \<open>
  C2, amended: for an authenticated socket, a \<open>PLACE_BID\<close> whose auction id is empty,
  whose amount is not a number, or whose amount is at most 0 is answered with one
  \<open>BID_PLACED_ERROR\<close> of code \<open>VALIDATION_ERROR\<close>, and the state is untouched: no
  Redis command is sent and the store is not read or written. The number of fractional
  digits is not looked at.
\<close>

theorem non_positive_amount_rejected:
  assumes "getUserDataFromSocket sock \<noteq> None"
      and "payload_auctionItemId payload = []
           \<or> (case payload_bidAmountInDollars payload of None \<Rightarrow> True | Some x \<Rightarrow> x \<le> 0)"
  shows "handlePlaceBid env sock payload w =
           ([(ThisSocket (socket_id sock), ''BID_PLACED_ERROR'',
              BidPlacedError \<lparr>err_auctionItemId = payload_auctionItemId payload,
                              err_errorCode = ''VALIDATION_ERROR'',
                              err_errorMessage = Text ''Invalid bid data''\<rparr>)], w)"
  using assms by (auto simp: handlePlaceBid_def Let_def split: option.splits)

theorem non_positive_amount_rejected_witness:
  "getUserDataFromSocket demo_socket \<noteq> None
   \<and> handlePlaceBid demo_env demo_socket
        \<lparr>payload_auctionItemId = ''a1'', payload_bidAmountInDollars = Some 0\<rparr> demo_world =
        ([(ThisSocket ''sock-B'', ''BID_PLACED_ERROR'',
           BidPlacedError \<lparr>err_auctionItemId = ''a1'', err_errorCode = ''VALIDATION_ERROR'',
                           err_errorMessage = Text ''Invalid bid data''\<rparr>)], demo_world)"
proof -
  have auth: "getUserDataFromSocket demo_socket \<noteq> None"
    by (simp add: getUserDataFromSocket_def demo_socket_def)
  from non_positive_amount_rejected[OF auth, of "\<lparr>payload_auctionItemId = ''a1'', payload_bidAmountInDollars = Some 0\<rparr>" demo_env demo_world]
    auth show ?thesis by (simp add: demo_socket_def)
qed

section \<open>The amount of an accepted bid\<close>

text \<open>
  C10, as stated, fails. A bid of 120.006 is accepted; the success reply and the
  broadcast carry 120.006, but the auction row and the bid row hold 12001 cents, that is
  120.01: the \<open>DECIMAL(12,2)\<close> columns round what the code hands them.
\<close>

theorem stored_amount_counterexample:
  "(let (out, w') = handlePlaceBid demo_env demo_socket
                      \<lparr>payload_auctionItemId = ''a1'',
                       payload_bidAmountInDollars = Some (120006 / 1000)\<rparr>
                      demo_world
    in out = [(ThisSocket ''sock-B'', ''BID_PLACED_SUCCESS'',
               BidPlacedSuccess \<lparr>ok_auctionItemId = ''a1'',
                                 ok_bidAmountInDollars = 120006 / 1000,
                                 ok_bidId = ''bid-1'', ok_bidPlacedAtTimestamp = 12\<rparr>),
              (Room ''auction-room:a1'', ''BID_UPDATE_BROADCAST'',
               BidUpdateBroadcast \<lparr>upd_auctionItemId = ''a1'',
                                   upd_newHighestBidInDollars = 120006 / 1000,
                                   upd_highestBidderUserId = ''userB'',
                                   upd_highestBidderUsername = ''bob'',
                                   upd_bidPlacedAtTimestamp = 12,
                                   upd_totalNumberOfBids = 1\<rparr>)]
       \<and> map currentHighestBidInDollars (auction_items (db w')) = [12001]
       \<and> map bid_bidAmountInDollars (bids (db w')) = [12001]
       \<and> toNumber 12001 \<noteq> 120006 / 1000)"
  by (simp add: demo_defs code_defs handler_defs store_decimal_examples Let_def)

text \<open>
  C10, amended: for an accepted bid, the amount returned to the caller, sent back to
  the bidder and broadcast to the room is the submitted number itself; the code applies
  no rounding. The auction row and the bid row hold the submitted amount rounded to two
  fractional digits by their \<open>DECIMAL(12,2)\<close> columns, which is the submitted amount
  exactly when it has at most two fractional digits.
\<close>

theorem accepted_amount_relayed_exactly:
  assumes auth: "getUserDataFromSocket sock = Some ud"
      and aid: "payload_auctionItemId payload = a" "a \<noteq> []"
      and amount: "payload_bidAmountInDollars payload = Some x" "0 < x"
      and run: "processBidWithDistributedLock env a (userId ud) x w = (r, w')"
      and ok: "wasBidSuccessful r"
  shows "newHighestBidInDollars r = Some x
       \<and> (\<exists>n. handlePlaceBid env sock payload w =
              ([(ThisSocket (socket_id sock), ''BID_PLACED_SUCCESS'',
                 BidPlacedSuccess \<lparr>ok_auctionItemId = a, ok_bidAmountInDollars = x,
                                   ok_bidId = env_bidId env,
                                   ok_bidPlacedAtTimestamp = env_bidPlacedAt env\<rparr>),
                (Room (generateAuctionRoomNameFromId a), ''BID_UPDATE_BROADCAST'',
                 BidUpdateBroadcast \<lparr>upd_auctionItemId = a, upd_newHighestBidInDollars = x,
                                     upd_highestBidderUserId = userId ud,
                                     upd_highestBidderUsername = username ud,
                                     upd_bidPlacedAtTimestamp = env_bidPlacedAt env,
                                     upd_totalNumberOfBids = n\<rparr>)], w'))
       \<and> (\<exists>row b. findUnique_auctionItem (db w') a = Some row
              \<and> currentHighestBidInDollars row = round_half_away (x * 100)
              \<and> bids (db w') = bids (env_interference env (db w)) @ [b]
              \<and> bid_bidAmountInDollars b = round_half_away (x * 100))
       \<and> (toNumber (round_half_away (x * 100)) = x \<longleftrightarrow> (\<exists>k::int. x * 100 = of_int k))"
proof -
  obtain acq r1 where acq: "acquireDistributedLockForBidProcessing (env_lockUuid env) a
                  LOCK_TTL_FOR_BID_PROCESSING_IN_MILLISECONDS (redis w) = (acq, r1)"
    by (cases "acquireDistributedLockForBidProcessing (env_lockUuid env) a
                  LOCK_TTL_FOR_BID_PROCESSING_IN_MILLISECONDS (redis w)")
  obtain outcome w2 where cb:
    "processBidTransaction env a (userId ud) x (w\<lparr>redis := r1\<rparr>) = (outcome, w2)"
    by (cases "processBidTransaction env a (userId ud) x (w\<lparr>redis := r1\<rparr>)")
  note cases = processBidWithDistributedLock_cases[OF run acq cb]
  from cases ok have got: "wasLockAcquiredSuccessfully acq" by (auto split: if_splits)
  with cases have dbw: "db w' = db w2" by simp
  from cases got ok obtain r0 where out: "outcome = Inr r0"
    and r: "r = r0\<lparr>processingTimeInMs := env_processingEndTime env - env_processingStartTime env\<rparr>"
    by (cases outcome) auto
  from r ok have ok0: "wasBidSuccessful r0" by simp
  from processBidTransaction_accepts[OF cb[unfolded out] ok0] obtain b where
    tx: "bid_transaction a (userId ud) x (env_bidPlacedAt env) (env_bidId env)
           (env_interference env (db (w\<lparr>redis := r1\<rparr>))) = (Inr b, db w2)"
    and r0: "newHighestBidInDollars r0 = Some x" "bidId r0 = Some (bid_id b)"
            "bidPlacedAtTimestamp r0 = Some (env_bidPlacedAt env)"
    by auto
  from bid_transaction_commits[OF tx] have bid: "bid_id b = env_bidId env" by auto
  from committed_row[OF tx] obtain row c where
    row: "findUnique_auctionItem (db w2) a = Some row" "store_decimal_12_2 x = Some c"
         "currentHighestBidInDollars row = c" "bid_bidAmountInDollars b = c"
         "bids (db w2) = bids (env_interference env (db w)) @ [b]"
    by auto
  from store_decimal_Some[OF row(2)] have c: "c = round_half_away (x * 100)" .
  have handler: "\<exists>n. handlePlaceBid env sock payload w =
              ([(ThisSocket (socket_id sock), ''BID_PLACED_SUCCESS'',
                 BidPlacedSuccess \<lparr>ok_auctionItemId = a, ok_bidAmountInDollars = x,
                                   ok_bidId = env_bidId env,
                                   ok_bidPlacedAtTimestamp = env_bidPlacedAt env\<rparr>),
                (Room (generateAuctionRoomNameFromId a), ''BID_UPDATE_BROADCAST'',
                 BidUpdateBroadcast \<lparr>upd_auctionItemId = a, upd_newHighestBidInDollars = x,
                                     upd_highestBidderUserId = userId ud,
                                     upd_highestBidderUsername = username ud,
                                     upd_bidPlacedAtTimestamp = env_bidPlacedAt env,
                                     upd_totalNumberOfBids = n\<rparr>)], w')"
    using auth aid amount run ok r r0 bid
    by (simp add: handlePlaceBid_def Let_def)
  from r r0 handler row c dbw stored_amount_exact_iff show ?thesis by auto
qed

theorem accepted_amount_relayed_exactly_witness:
  "(let (r, w') = processBidWithDistributedLock demo_env ''a1'' ''userB'' 120 demo_world
    in wasBidSuccessful r \<and> newHighestBidInDollars r = Some 120
       \<and> (\<exists>row. findUnique_auctionItem (db w') ''a1'' = Some row
              \<and> currentHighestBidInDollars row = round_half_away (120 * 100))
       \<and> toNumber (round_half_away (120 * 100)) = 120)"
proof -
  obtain r w' where run:
    "processBidWithDistributedLock demo_env ''a1'' ''userB'' 120 demo_world = (r, w')"
    by (cases "processBidWithDistributedLock demo_env ''a1'' ''userB'' 120 demo_world")
  have ok: "wasBidSuccessful r"
    using run by (auto simp add: demo_defs code_defs store_decimal_examples Let_def)
  have auth: "getUserDataFromSocket demo_socket = Some \<lparr>userId = ''userB'', username = ''bob''\<rparr>"
    by (simp add: getUserDataFromSocket_def demo_socket_def)
  have whole: "\<exists>k::int. (120::rat) * 100 = of_int k"
    by (rule exI[of _ 12000]) simp
  from accepted_amount_relayed_exactly[OF auth _ _ _ _ _ ok,
      of "\<lparr>payload_auctionItemId = ''a1'', payload_bidAmountInDollars = Some 120\<rparr>"
         "''a1''" 120 demo_env demo_world w'] run ok whole
  show ?thesis by auto
qed

section \<open>The winner loop\<close>

lemma findFirst_highestBid_None:
  "findFirst_highestBid st a = None \<longleftrightarrow> successful_bids_on st a = []"
proof -
  have "sort_key (\<lambda>b. - bid_bidAmountInDollars b) (successful_bids_on st a) = []
          \<longleftrightarrow> successful_bids_on st a = []"
    by (metis length_sort length_0_conv)
  then show ?thesis
    by (auto simp: findFirst_highestBid_def split: list.splits)
qed

lemma findFirst_highestBid_Some:
  assumes "findFirst_highestBid st a = Some hb"
  shows "hb \<in> set (successful_bids_on st a)
       \<and> (\<forall>b\<in>set (successful_bids_on st a).
             bid_bidAmountInDollars b \<le> bid_bidAmountInDollars hb)"
proof -
  let ?key = "\<lambda>b. - bid_bidAmountInDollars b"
  let ?xs = "successful_bids_on st a"
  from assms obtain rest where s: "sort_key ?key ?xs = hb # rest"
    by (auto simp: findFirst_highestBid_def split: list.splits)
  have "set (hb # rest) = set ?xs"
    unfolding s[symmetric] by simp
  moreover have "sorted (map ?key (hb # rest))"
    unfolding s[symmetric] by (rule sorted_sort_key)
  ultimately show ?thesis by auto
qed

lemma findFirst_highestBid_bids:
  "bids st' = bids st \<Longrightarrow> findFirst_highestBid st' a = findFirst_highestBid st a"
  by (simp add: findFirst_highestBid_def successful_bids_on_def)

lemma findUnique_user_users:
  "users st' = users st \<Longrightarrow> findUnique_user st' u = findUnique_user st u"
  by (simp add: findUnique_user_def)

lemma findUnique_auctionItem_ids:
  "findUnique_auctionItem st a \<noteq> None \<longleftrightarrow> a \<in> ai_id ` set (auction_items st)"
  by (auto simp: findUnique_auctionItem_def find_None_iff)

text \<open>
  What the winner loop leaves when it does not throw and nobody else writes during the
  call: every pending auction with a successful bid has its winner, and a row's
  \<open>updated_at\<close> is what it was or the time of one of the call's writes.
\<close>

lemma assign_winners_result:
  assumes quiet: "tick_interference env = (\<lambda>k st. st)"
      and run: "assign_winners env k xs st = (Inr u, st')"
  shows "\<exists>T. st' = st\<lparr>auction_items :=
                  map (\<lambda>r. (if ai_id r \<in> ai_id ` set xs then
                               (case findFirst_highestBid st (ai_id r) of
                                  None \<Rightarrow> r
                                | Some hb \<Rightarrow> r\<lparr>winnerUserId := Some (bid_bidderUserId hb)\<rparr>)
                             else r)\<lparr>updatedAtTimestamp := T r\<rparr>)
                    (auction_items st)\<rparr>
           \<and> (\<forall>r. T r = updatedAtTimestamp r \<or> (\<exists>j. T r = tick_updatedAt env j))"
  using run
proof (induction xs arbitrary: k st)
  case Nil
  then have "st' = st\<lparr>auction_items :=
                  map (\<lambda>r. r\<lparr>updatedAtTimestamp := updatedAtTimestamp r\<rparr>) (auction_items st)\<rparr>"
    by simp
  then show ?case
    by (intro exI[of _ updatedAtTimestamp]) simp
next
  case (Cons auction rest)
  from Cons.prems have up: "dbUp st" by (simp split: if_splits)
  show ?case
  proof (cases "findFirst_highestBid st (ai_id auction)")
    case None
    with Cons.prems up quiet have "assign_winners env (k + 2) rest st = (Inr u, st')" by simp
    from Cons.IH[OF this] obtain T where
      st': "st' = st\<lparr>auction_items :=
                  map (\<lambda>r. (if ai_id r \<in> ai_id ` set rest then
                               (case findFirst_highestBid st (ai_id r) of
                                  None \<Rightarrow> r
                                | Some hb \<Rightarrow> r\<lparr>winnerUserId := Some (bid_bidderUserId hb)\<rparr>)
                             else r)\<lparr>updatedAtTimestamp := T r\<rparr>)
                    (auction_items st)\<rparr>"
      and T: "\<forall>r. T r = updatedAtTimestamp r \<or> (\<exists>j. T r = tick_updatedAt env j)"
      by blast
    have "st' = st\<lparr>auction_items :=
                  map (\<lambda>r. (if ai_id r \<in> ai_id ` set (auction # rest) then
                               (case findFirst_highestBid st (ai_id r) of
                                  None \<Rightarrow> r
                                | Some hb \<Rightarrow> r\<lparr>winnerUserId := Some (bid_bidderUserId hb)\<rparr>)
                             else r)\<lparr>updatedAtTimestamp := T r\<rparr>)
                    (auction_items st)\<rparr>"
      by (subst st') (use None in \<open>auto intro!: arg_cong[where f="\<lambda>rows. st\<lparr>auction_items := rows\<rparr>"]\<close>)
    with T show ?thesis by blast
  next
    case (Some hb)
    define step :: "auction_item \<Rightarrow> auction_item" where
      "step = (\<lambda>a. if ai_id a = ai_id auction
                    then a\<lparr>winnerUserId := Some (bid_bidderUserId hb),
                           updatedAtTimestamp := tick_updatedAt env (k + 1)\<rparr>
                    else a)"
    let ?st1 = "st\<lparr>auction_items := map step (auction_items st)\<rparr>"
    have st1: "update_auctionItem (ai_id auction)
                 (\<lambda>a. a\<lparr>winnerUserId := Some (bid_bidderUserId hb),
                         updatedAtTimestamp := tick_updatedAt env (k + 1)\<rparr>) st = ?st1"
      by (simp add: update_auctionItem_def step_def)
    from Cons.prems Some up quiet
    have "assign_winners env (k + 2) rest
            (update_auctionItem (ai_id auction)
               (\<lambda>a. a\<lparr>winnerUserId := Some (bid_bidderUserId hb),
                       updatedAtTimestamp := tick_updatedAt env (k + 1)\<rparr>) st) = (Inr u, st')"
      by (simp split: if_splits)
    then have run1: "assign_winners env (k + 2) rest ?st1 = (Inr u, st')"
      unfolding st1 .
    have same: "\<And>a. findFirst_highestBid ?st1 a = findFirst_highestBid st a"
      by (rule findFirst_highestBid_bids) simp
    from Cons.IH[OF run1, unfolded same] obtain T where
      st': "st' = ?st1\<lparr>auction_items :=
                  map (\<lambda>r. (if ai_id r \<in> ai_id ` set rest then
                               (case findFirst_highestBid st (ai_id r) of
                                  None \<Rightarrow> r
                                | Some hb \<Rightarrow> r\<lparr>winnerUserId := Some (bid_bidderUserId hb)\<rparr>)
                             else r)\<lparr>updatedAtTimestamp := T r\<rparr>)
                    (auction_items ?st1)\<rparr>"
      and T: "\<forall>r. T r = updatedAtTimestamp r \<or> (\<exists>j. T r = tick_updatedAt env j)"
      by blast
    have "st' = st\<lparr>auction_items :=
                  map (\<lambda>r. (if ai_id r \<in> ai_id ` set (auction # rest) then
                               (case findFirst_highestBid st (ai_id r) of
                                  None \<Rightarrow> r
                                | Some hb \<Rightarrow> r\<lparr>winnerUserId := Some (bid_bidderUserId hb)\<rparr>)
                             else r)\<lparr>updatedAtTimestamp := T (step r)\<rparr>)
                    (auction_items st)\<rparr>"
      by (subst st') (use Some in \<open>auto simp: step_def
            intro!: arg_cong[where f="\<lambda>rows. st\<lparr>auction_items := rows\<rparr>"]\<close>)
    moreover have "\<forall>r. T (step r) = updatedAtTimestamp r \<or> (\<exists>j. T (step r) = tick_updatedAt env j)"
    proof
      fix r
      from T have "T (step r) = updatedAtTimestamp (step r) \<or> (\<exists>j. T (step r) = tick_updatedAt env j)"
        by blast
      then show "T (step r) = updatedAtTimestamp r \<or> (\<exists>j. T (step r) = tick_updatedAt env j)"
        by (auto simp: step_def split: if_splits)
    qed
    ultimately show ?thesis by (intro exI[of _ "\<lambda>r. T (step r)"]) simp
  qed
qed

lemma assign_winners_completes:
  assumes quiet: "tick_interference env = (\<lambda>k st. st)"
      and up: "dbUp st"
      and fk: "\<forall>b\<in>set (bids st). findUnique_user st (bid_bidderUserId b) \<noteq> None"
      and ids: "ai_id ` set xs \<subseteq> ai_id ` set (auction_items st)"
  shows "\<exists>st'. assign_winners env k xs st = (Inr (), st')"
  using up fk ids
proof (induction xs arbitrary: k st)
  case Nil
  then show ?case by simp
next
  case (Cons auction rest)
  from Cons.prems(3) have rest: "ai_id ` set rest \<subseteq> ai_id ` set (auction_items st)"
    and "ai_id auction \<in> ai_id ` set (auction_items st)"
    by auto
  then have here: "findUnique_auctionItem st (ai_id auction) \<noteq> None"
    by (simp only: findUnique_auctionItem_ids)
  show ?case
  proof (cases "findFirst_highestBid st (ai_id auction)")
    case None
    from Cons.IH[OF Cons.prems(1,2) rest, of "k + 2"] None Cons.prems(1) quiet show ?thesis by simp
  next
    case (Some hb)
    let ?st1 = "update_auctionItem (ai_id auction)
                  (\<lambda>a. a\<lparr>winnerUserId := Some (bid_bidderUserId hb),
                          updatedAtTimestamp := tick_updatedAt env (k + 1)\<rparr>) st"
    from findFirst_highestBid_Some[OF Some] have "hb \<in> set (bids st)"
      by (simp add: successful_bids_on_def)
    with Cons.prems(2) have user: "findUnique_user st (bid_bidderUserId hb) \<noteq> None" by blast
    have up1: "dbUp ?st1" using Cons.prems(1) by (simp add: update_auctionItem_def)
    have fk1: "\<forall>b\<in>set (bids ?st1). findUnique_user ?st1 (bid_bidderUserId b) \<noteq> None"
      using Cons.prems(2) by (simp add: update_auctionItem_def findUnique_user_def)
    have "map ai_id (auction_items ?st1) = map ai_id (auction_items st)"
      by (simp add: update_auctionItem_def cong: map_cong)
    then have "ai_id ` set (auction_items ?st1) = ai_id ` set (auction_items st)"
      by (metis list.set_map)
    with rest have ids1: "ai_id ` set rest \<subseteq> ai_id ` set (auction_items ?st1)" by simp
    from Cons.IH[OF up1 fk1 ids1, of "k + 2"] Some user here Cons.prems(1) quiet
    show ?thesis by simp
  qed
qed

text \<open>The winner loop, when nobody else writes, keeps the ids and the statuses.\<close>

lemma assign_winners_keeps:
  assumes quiet: "tick_interference env = (\<lambda>k st. st)"
      and run: "assign_winners env k xs st = (out, st')"
  shows "map ai_id (auction_items st') = map ai_id (auction_items st)
       \<and> map currentStatus (auction_items st') = map currentStatus (auction_items st)"
  using run
proof (induction xs arbitrary: k st)
  case Nil
  then show ?case by simp
next
  case (Cons auction rest)
  show ?case
  proof (cases "dbUp st")
    case False
    with Cons.prems show ?thesis by simp
  next
    case up: True
    show ?thesis
    proof (cases "findFirst_highestBid st (ai_id auction)")
      case None
      with Cons.prems up quiet have "assign_winners env (k + 2) rest st = (out, st')" by simp
      from Cons.IH[OF this] show ?thesis .
    next
      case (Some hb)
      let ?st1 = "update_auctionItem (ai_id auction)
                    (\<lambda>a. a\<lparr>winnerUserId := Some (bid_bidderUserId hb),
                            updatedAtTimestamp := tick_updatedAt env (k + 1)\<rparr>) st"
      have keep: "map ai_id (auction_items ?st1) = map ai_id (auction_items st)
                \<and> map currentStatus (auction_items ?st1) = map currentStatus (auction_items st)"
        by (simp add: update_auctionItem_def cong: map_cong)
      show ?thesis
      proof (cases "findUnique_auctionItem st (ai_id auction)")
        case None
        with Cons.prems \<open>findFirst_highestBid st (ai_id auction) = Some hb\<close> up quiet
        show ?thesis by simp
      next
        case row: (Some found)
        show ?thesis
        proof (cases "findUnique_user st (bid_bidderUserId hb)")
          case None
          with Cons.prems \<open>findFirst_highestBid st (ai_id auction) = Some hb\<close> up quiet row
          show ?thesis by simp
        next
          case (Some winner)
          with Cons.prems \<open>findFirst_highestBid st (ai_id auction) = Some hb\<close> up quiet row
          have "assign_winners env (k + 2) rest ?st1 = (out, st')"
            by simp
          from Cons.IH[OF this] keep show ?thesis by simp
        qed
      qed
    qed
  qed
qed

section \<open>Ended auctions and their winner\<close>

lemma reaper_result:
  assumes quiet: "tick_interference env = (\<lambda>k st. st)"
      and run: "markExpiredAuctionsAsEnded_try env st = (Inr n, st')"
  defines "flipped \<equiv> map (\<lambda>a. if is_expired (tick_now env) a
                                then a\<lparr>currentStatus := ENDED,
                                       updatedAtTimestamp := tick_updatedAt env 0\<rparr>
                                else a)
                         (auction_items st)"
  defines "pending \<equiv> filter (\<lambda>a. currentStatus a = ENDED \<and> winnerUserId a = None) flipped"
  shows "dbUp st" and "n = length (filter (is_expired (tick_now env)) (auction_items st))"
    and "bids st' = bids st" and "users st' = users st"
    and "\<exists>T. auction_items st' =
               map (\<lambda>r. (if ai_id r \<in> ai_id ` set pending then
                            (case findFirst_highestBid st (ai_id r) of
                               None \<Rightarrow> r
                             | Some hb \<Rightarrow> r\<lparr>winnerUserId := Some (bid_bidderUserId hb)\<rparr>)
                          else r)\<lparr>updatedAtTimestamp := T r\<rparr>) flipped
             \<and> (\<forall>r. T r = updatedAtTimestamp r \<or> (\<exists>j. T r = tick_updatedAt env j))"
proof -
  let ?st1 = "st\<lparr>auction_items := flipped\<rparr>"
  from run show up: "dbUp st"
    by (auto simp: markExpiredAuctionsAsEnded_try_def split: if_splits)
  with run quiet obtain u where loop: "assign_winners env 2 pending ?st1 = (Inr u, st')"
    and n: "n = length (filter (is_expired (tick_now env)) (auction_items st))"
    unfolding markExpiredAuctionsAsEnded_try_def flipped_def pending_def Let_def
    by (auto split: prod.splits sum.splits)
  from n show "n = length (filter (is_expired (tick_now env)) (auction_items st))" .
  have same: "\<And>a. findFirst_highestBid ?st1 a = findFirst_highestBid st a"
    by (rule findFirst_highestBid_bids) simp
  from assign_winners_result[OF quiet loop, unfolded same] obtain T where
    res: "st' = ?st1\<lparr>auction_items :=
                  map (\<lambda>r. (if ai_id r \<in> ai_id ` set pending then
                               (case findFirst_highestBid st (ai_id r) of
                                  None \<Rightarrow> r
                                | Some hb \<Rightarrow> r\<lparr>winnerUserId := Some (bid_bidderUserId hb)\<rparr>)
                             else r)\<lparr>updatedAtTimestamp := T r\<rparr>)
                    (auction_items ?st1)\<rparr>"
    and T: "\<forall>r. T r = updatedAtTimestamp r \<or> (\<exists>j. T r = tick_updatedAt env j)"
    by blast
  show "bids st' = bids st" by (subst res) simp
  show "users st' = users st" by (subst res) simp
  have "auction_items st' =
               map (\<lambda>r. (if ai_id r \<in> ai_id ` set pending then
                            (case findFirst_highestBid st (ai_id r) of
                               None \<Rightarrow> r
                             | Some hb \<Rightarrow> r\<lparr>winnerUserId := Some (bid_bidderUserId hb)\<rparr>)
                          else r)\<lparr>updatedAtTimestamp := T r\<rparr>) flipped"
    by (subst res) simp
  with T show "\<exists>T. auction_items st' =
               map (\<lambda>r. (if ai_id r \<in> ai_id ` set pending then
                            (case findFirst_highestBid st (ai_id r) of
                               None \<Rightarrow> r
                             | Some hb \<Rightarrow> r\<lparr>winnerUserId := Some (bid_bidderUserId hb)\<rparr>)
                          else r)\<lparr>updatedAtTimestamp := T r\<rparr>) flipped
             \<and> (\<forall>r. T r = updatedAtTimestamp r \<or> (\<exists>j. T r = tick_updatedAt env j))"
    by blast
qed

lemma reaper_completes:
  assumes quiet: "tick_interference env = (\<lambda>k st. st)"
      and up: "dbUp st"
      and fk: "\<forall>b\<in>set (bids st). findUnique_user st (bid_bidderUserId b) \<noteq> None"
  shows "\<exists>n st'. markExpiredAuctionsAsEnded_try env st = (Inr n, st')"
proof -
  let ?st1 = "st\<lparr>auction_items :=
                  map (\<lambda>a. if is_expired (tick_now env) a
                           then a\<lparr>currentStatus := ENDED,
                                  updatedAtTimestamp := tick_updatedAt env 0\<rparr>
                           else a)
                    (auction_items st)\<rparr>"
  let ?pending = "filter (\<lambda>a. currentStatus a = ENDED \<and> winnerUserId a = None)
                    (auction_items ?st1)"
  have up1: "dbUp ?st1" using up by simp
  have fk1: "\<forall>b\<in>set (bids ?st1). findUnique_user ?st1 (bid_bidderUserId b) \<noteq> None"
    using fk by (simp add: findUnique_user_def)
  have ids: "ai_id ` set ?pending \<subseteq> ai_id ` set (auction_items ?st1)"
    by (rule image_mono) (rule filter_is_subset)
  from assign_winners_completes[OF quiet up1 fk1 ids, of 2] obtain st2 where
    "assign_winners env 2 ?pending ?st1 = (Inr (), st2)"
    by blast
  with up quiet show ?thesis
    by (simp add: markExpiredAuctionsAsEnded_try_def Let_def)
qed

text \<open>
  C9, as stated, fails: the call is not atomic. In \<open>late_bid_tick\<close> the reaper ends
  auction \<open>a1\<close> at time 1000 and its \<open>findFirst\<close> finds no bid; user B's bid, which
  passed its checks at time 999, then commits (the transaction tests neither the status
  nor the end time), and the call returns 1 without error. The auction is left
  \<open>ENDED\<close> without a winner and with a successful bid. Seen from user B's call, which
  the tick overtakes between the read and the transaction, the bid is accepted and the
  store ends the same.
\<close>

theorem late_bid_counterexample:
  "(let (res, st') = markExpiredAuctionsAsEnded_try late_bid_tick demo_store
    in res = Inr 1
       \<and> markExpiredAuctionsAsEnded late_bid_tick demo_store = (1, st')
       \<and> map (\<lambda>r. (ai_id r, currentStatus r, winnerUserId r)) (auction_items st')
           = [(''a1'', ENDED, None)]
       \<and> map (\<lambda>b. (bid_bidderUserId b, bid_bidAmountInDollars b, bid_placedAtTimestamp b,
                    bid_wasBidSuccessful b)) (successful_bids_on st' ''a1'')
           = [(''userB'', 12000, 999, True)]
       \<and> (let (r, w') = processBidWithDistributedLock late_bid_env ''a1'' ''userB'' 120 demo_world
          in wasBidSuccessful r \<and> bidPlacedAtTimestamp r = Some 999 \<and> db w' = st'))"
proof -
  define left :: store where
    "left = demo_store\<lparr>auction_items :=
                         [demo_auction\<lparr>currentStatus := ENDED,
                                       currentHighestBidInDollars := 12000,
                                       updatedAtTimestamp := 999\<rparr>],
                       bids := [\<lparr>bid_id = ''bid-1'', bid_bidAmountInDollars = 12000,
                                 bid_placedAtTimestamp = 999, bid_wasBidSuccessful = True,
                                 bid_bidProcessingTimeInMs = None,
                                 bid_auctionItemId = ''a1'',
                                 bid_bidderUserId = ''userB''\<rparr>]\<rparr>"
  have tick: "markExpiredAuctionsAsEnded_try late_bid_tick demo_store = (Inr 1, left)"
    unfolding left_def
    by (simp add: late_bid_tick_def demo_defs reaper_defs bid_transaction_def
          store_decimal_examples Let_def)
  then have call: "markExpiredAuctionsAsEnded late_bid_tick demo_store = (1, left)"
    by (simp add: markExpiredAuctionsAsEnded_def)
  have rows: "map (\<lambda>r. (ai_id r, currentStatus r, winnerUserId r)) (auction_items left)
                = [(''a1'', ENDED, None)]"
    by (simp add: left_def demo_defs)
  have found: "map (\<lambda>b. (bid_bidderUserId b, bid_bidAmountInDollars b, bid_placedAtTimestamp b,
                          bid_wasBidSuccessful b)) (successful_bids_on left ''a1'')
                 = [(''userB'', 12000, 999, True)]"
    by (simp add: left_def demo_defs successful_bids_on_def)
  obtain r w' where
    bid: "processBidWithDistributedLock late_bid_env ''a1'' ''userB'' 120 demo_world = (r, w')"
    by (cases "processBidWithDistributedLock late_bid_env ''a1'' ''userB'' 120 demo_world")
  have "wasBidSuccessful (fst (processBidWithDistributedLock late_bid_env ''a1'' ''userB'' 120
                                 demo_world))"
    "bidPlacedAtTimestamp (fst (processBidWithDistributedLock late_bid_env ''a1'' ''userB'' 120
                                  demo_world)) = Some 999"
    "db (snd (processBidWithDistributedLock late_bid_env ''a1'' ''userB'' 120 demo_world)) = left"
    unfolding left_def
    by (simp_all add: late_bid_env_def demo_defs code_defs reaper_defs
          store_decimal_examples Let_def)
  then have accepted: "wasBidSuccessful r" "bidPlacedAtTimestamp r = Some 999" "db w' = left"
    by (simp_all add: bid)
  show ?thesis
    unfolding tick bid by (simp add: call rows found accepted)
qed

text \<open>
  C9, amended: when \<open>markExpiredAuctionsAsEnded\<close> runs its \<open>try\<close> block to the end
  and no other writer commits during the call, no auction row is left \<open>ENDED\<close>
  without a winner while a successful bid on it exists. The loop reads every ended row
  without a winner, whichever tick ended it.
\<close>

theorem no_ended_auction_left_without_winner:
  assumes quiet: "tick_interference env = (\<lambda>k st. st)"
      and run: "markExpiredAuctionsAsEnded_try env st = (Inr n, st')"
      and row: "r' \<in> set (auction_items st')"
      and ended: "currentStatus r' = ENDED"
      and bids: "successful_bids_on st' (ai_id r') \<noteq> []"
  shows "winnerUserId r' \<noteq> None \<and> markExpiredAuctionsAsEnded env st = (n, st')"
proof -
  define flipped where "flipped = map (\<lambda>a. if is_expired (tick_now env) a
                                then a\<lparr>currentStatus := ENDED,
                                       updatedAtTimestamp := tick_updatedAt env 0\<rparr>
                                else a)
                         (auction_items st)"
  define pending where "pending = filter (\<lambda>a. currentStatus a = ENDED \<and> winnerUserId a = None) flipped"
  note res = reaper_result[OF quiet run, folded flipped_def pending_def]
  from res(5) obtain T where
    rows: "auction_items st' =
               map (\<lambda>r. (if ai_id r \<in> ai_id ` set pending then
                            (case findFirst_highestBid st (ai_id r) of
                               None \<Rightarrow> r
                             | Some hb \<Rightarrow> r\<lparr>winnerUserId := Some (bid_bidderUserId hb)\<rparr>)
                          else r)\<lparr>updatedAtTimestamp := T r\<rparr>) flipped"
    by blast
  from row rows obtain r where r: "r \<in> set flipped"
    and r': "r' = (if ai_id r \<in> ai_id ` set pending then
                       (case findFirst_highestBid st (ai_id r) of
                          None \<Rightarrow> r
                        | Some hb \<Rightarrow> r\<lparr>winnerUserId := Some (bid_bidderUserId hb)\<rparr>)
                     else r)\<lparr>updatedAtTimestamp := T r\<rparr>"
    by auto
  have id: "ai_id r' = ai_id r" and status: "currentStatus r' = currentStatus r"
    unfolding r' by (auto split: option.splits)
  from bids res(3) have "successful_bids_on st (ai_id r) \<noteq> []"
    by (simp add: successful_bids_on_def id)
  then obtain hb where hb: "findFirst_highestBid st (ai_id r) = Some hb"
    using findFirst_highestBid_None[of st "ai_id r"] by (cases "findFirst_highestBid st (ai_id r)") auto
  have "winnerUserId r' \<noteq> None"
  proof (cases "winnerUserId r")
    case None
    with r ended status have "r \<in> set pending" by (simp add: pending_def)
    then have "ai_id r \<in> ai_id ` set pending" by blast
    with r' hb show ?thesis by simp
  next
    case (Some w)
    with r' show ?thesis by (auto split: option.splits)
  qed
  with run show ?thesis by (simp add: markExpiredAuctionsAsEnded_def)
qed

theorem no_ended_auction_left_without_winner_witness:
  "(let (n, st') = markExpiredAuctionsAsEnded demo_tick leftover_store
    in n = 0 \<and> map currentStatus (auction_items leftover_store) = [ENDED]
       \<and> map winnerUserId (auction_items leftover_store) = [None]
       \<and> map winnerUserId (auction_items st') = [Some ''userB''])"
proof -
  have quiet: "tick_interference demo_tick = (\<lambda>k st. st)"
    by (simp add: demo_tick_def)
  have run: "markExpiredAuctionsAsEnded_try demo_tick leftover_store =
               (Inr 0, leftover_store\<lparr>auction_items :=
                  [demo_auction\<lparr>currentStatus := ENDED, currentHighestBidInDollars := 12000,
                                winnerUserId := Some ''userB'',
                                updatedAtTimestamp := 1003\<rparr>]\<rparr>)"
    by (simp add: leftover_store_def demo_defs reaper_defs)
  have "winnerUserId (demo_auction\<lparr>currentStatus := ENDED, currentHighestBidInDollars := 12000,
                                winnerUserId := Some ''userB'',
                                updatedAtTimestamp := 1003\<rparr>) \<noteq> None
        \<and> markExpiredAuctionsAsEnded demo_tick leftover_store =
               (0, leftover_store\<lparr>auction_items :=
                  [demo_auction\<lparr>currentStatus := ENDED, currentHighestBidInDollars := 12000,
                                winnerUserId := Some ''userB'',
                                updatedAtTimestamp := 1003\<rparr>]\<rparr>)"
    by (rule no_ended_auction_left_without_winner[OF quiet run])
       (simp_all add: leftover_store_def demo_defs successful_bids_on_def)
  then show ?thesis
    by (simp add: leftover_store_def demo_defs)
qed

section \<open>Who wins\<close>

text \<open>
  C3, as stated, fails on the tie-break. User B's bid of 120.00 draws its \<open>placedAt\<close>
  = 12 and stalls; user C's bid of 120.00 with \<open>placedAt\<close> = 20 commits first; then B's
  transaction commits. The reaper's query orders by amount only and meets C's row first,
  so C wins, although B's bid has the same amount and the earlier \<open>placedAt\<close>.
\<close>

theorem winner_tie_break_counterexample:
  "(let (r, w1) = processBidWithDistributedLock stalled_env ''a1'' ''userB'' 120 demo_world;
        (n, st') = markExpiredAuctionsAsEnded demo_tick (db w1)
    in wasBidSuccessful r
       \<and> map (\<lambda>b. (bid_bidderUserId b, bid_bidAmountInDollars b, bid_placedAtTimestamp b,
                    bid_wasBidSuccessful b)) (bids (db w1))
           = [(''userC'', 12000, 20, True), (''userB'', 12000, 12, True)]
       \<and> n = 1
       \<and> map winnerUserId (auction_items st') = [Some ''userC'']
       \<and> map_option bid_bidderUserId (spec_winning_bid (successful_bids_on (db w1) ''a1''))
           = Some ''userB'')"
  by (simp add: stalled_env_def demo_defs code_defs reaper_defs store_decimal_examples
        spec_precedes_def Let_def)

lemma findFirst_highestBid_first_of_ties:
  assumes "findFirst_highestBid st a = Some hb"
  shows "\<exists>rest. filter (\<lambda>b. bid_bidAmountInDollars b = bid_bidAmountInDollars hb)
                  (successful_bids_on st a) = hb # rest"
proof -
  let ?key = "\<lambda>b. - bid_bidAmountInDollars b"
  let ?xs = "successful_bids_on st a"
  from assms obtain rest where s: "sort_key ?key ?xs = hb # rest"
    by (auto simp: findFirst_highestBid_def split: list.splits)
  have "filter (\<lambda>b. ?key b = ?key hb) ?xs = filter (\<lambda>b. ?key b = ?key hb) (sort_key ?key ?xs)"
    by (simp only: sort_key_stable)
  also have "\<dots> = hb # filter (\<lambda>b. ?key b = ?key hb) rest"
    unfolding s by simp
  finally show ?thesis by simp
qed

text \<open>
  C3, amended: an auction that the call ends, that had no winner and has a successful
  bid, gets as winner the bidder of a successful bid of the highest amount, when no
  other writer commits during the call. Among the successful bids of that amount it is
  the one a scan of the table meets first; \<open>placedAt\<close> and \<open>bidId\<close> are not compared.
  The row is otherwise as it was, but for its \<open>updated_at\<close>, which is the time of one
  of the call's writes.
\<close>

theorem winner_is_a_highest_bidder:
  assumes quiet: "tick_interference env = (\<lambda>k st. st)"
      and run: "markExpiredAuctionsAsEnded_try env st = (Inr n, st')"
      and row: "r \<in> set (auction_items st)"
      and expired: "is_expired (tick_now env) r"
      and nowinner: "winnerUserId r = None"
      and bids: "successful_bids_on st (ai_id r) \<noteq> []"
  shows "\<exists>hb rest j. hb \<in> set (successful_bids_on st (ai_id r))
           \<and> (\<forall>b\<in>set (successful_bids_on st (ai_id r)).
                 bid_bidAmountInDollars b \<le> bid_bidAmountInDollars hb)
           \<and> filter (\<lambda>b. bid_bidAmountInDollars b = bid_bidAmountInDollars hb)
                (successful_bids_on st (ai_id r)) = hb # rest
           \<and> r\<lparr>currentStatus := ENDED, winnerUserId := Some (bid_bidderUserId hb),
                 updatedAtTimestamp := tick_updatedAt env j\<rparr>
                \<in> set (auction_items st')"
proof -
  define flipped where "flipped = map (\<lambda>a. if is_expired (tick_now env) a
                                then a\<lparr>currentStatus := ENDED,
                                       updatedAtTimestamp := tick_updatedAt env 0\<rparr>
                                else a)
                         (auction_items st)"
  define pending where "pending = filter (\<lambda>a. currentStatus a = ENDED \<and> winnerUserId a = None) flipped"
  note res = reaper_result[OF quiet run, folded flipped_def pending_def]
  let ?r1 = "r\<lparr>currentStatus := ENDED, updatedAtTimestamp := tick_updatedAt env 0\<rparr>"
  from row expired have r1: "?r1 \<in> set flipped"
    unfolding flipped_def by force
  with nowinner have "?r1 \<in> set pending" by (simp add: pending_def)
  then have "ai_id ?r1 \<in> ai_id ` set pending" by (rule imageI)
  then have inp: "ai_id r \<in> ai_id ` set pending" by simp
  from bids obtain hb where hb: "findFirst_highestBid st (ai_id r) = Some hb"
    using findFirst_highestBid_None[of st "ai_id r"] by (cases "findFirst_highestBid st (ai_id r)") auto
  from res(5) obtain T where
    T: "\<forall>r. T r = updatedAtTimestamp r \<or> (\<exists>j. T r = tick_updatedAt env j)" and
    rows: "auction_items st' =
               map (\<lambda>r. (if ai_id r \<in> ai_id ` set pending then
                            (case findFirst_highestBid st (ai_id r) of
                               None \<Rightarrow> r
                             | Some hb \<Rightarrow> r\<lparr>winnerUserId := Some (bid_bidderUserId hb)\<rparr>)
                          else r)\<lparr>updatedAtTimestamp := T r\<rparr>) flipped"
    by blast
  define g :: "auction_item \<Rightarrow> auction_item" where "g = (\<lambda>r. (if ai_id r \<in> ai_id ` set pending then
                       (case findFirst_highestBid st (ai_id r) of
                          None \<Rightarrow> r
                        | Some hb \<Rightarrow> r\<lparr>winnerUserId := Some (bid_bidderUserId hb)\<rparr>)
                     else r)\<lparr>updatedAtTimestamp := T r\<rparr>)"
  have rows': "auction_items st' = map g flipped"
    unfolding g_def by (rule rows)
  from r1 have "g ?r1 \<in> set (auction_items st')"
    unfolding rows' by simp
  with inp hb have here: "r\<lparr>currentStatus := ENDED, winnerUserId := Some (bid_bidderUserId hb),
                    updatedAtTimestamp := T ?r1\<rparr> \<in> set (auction_items st')"
    by (simp add: g_def)
  from T have "T ?r1 = updatedAtTimestamp ?r1 \<or> (\<exists>j. T ?r1 = tick_updatedAt env j)" by blast
  then obtain j where "T ?r1 = tick_updatedAt env j" by auto
  with here have "r\<lparr>currentStatus := ENDED, winnerUserId := Some (bid_bidderUserId hb),
                    updatedAtTimestamp := tick_updatedAt env j\<rparr> \<in> set (auction_items st')"
    by simp
  with findFirst_highestBid_Some[OF hb] findFirst_highestBid_first_of_ties[OF hb]
  show ?thesis by blast
qed

theorem winner_is_a_highest_bidder_witness:
  "(let st = db (snd (processBidWithDistributedLock stalled_env ''a1'' ''userB'' 120 demo_world));
        (n, st') = markExpiredAuctionsAsEnded demo_tick st
    in map winnerUserId (auction_items st) = [None]
       \<and> map winnerUserId (auction_items st') = [Some ''userC'']
       \<and> map bid_bidderUserId (successful_bids_on st ''a1'') = [''userC'', ''userB''])"
proof -
  define st where "st = db (snd (processBidWithDistributedLock stalled_env ''a1'' ''userB'' 120 demo_world))"
  have st: "st = \<lparr>dbUp = True, users = demo_users,
                  auction_items = [demo_auction\<lparr>currentHighestBidInDollars := 12000,
                                                updatedAtTimestamp := 12\<rparr>],
                  bids = [\<lparr>bid_id = ''bid-2'', bid_bidAmountInDollars = 12000,
                           bid_placedAtTimestamp = 20, bid_wasBidSuccessful = True,
                           bid_bidProcessingTimeInMs = None, bid_auctionItemId = ''a1'',
                           bid_bidderUserId = ''userC''\<rparr>,
                          \<lparr>bid_id = ''bid-1'', bid_bidAmountInDollars = 12000,
                           bid_placedAtTimestamp = 12, bid_wasBidSuccessful = True,
                           bid_bidProcessingTimeInMs = None, bid_auctionItemId = ''a1'',
                           bid_bidderUserId = ''userB''\<rparr>]\<rparr>"
    unfolding st_def
    by (simp add: stalled_env_def demo_defs code_defs store_decimal_examples Let_def)
  have quiet: "tick_interference demo_tick = (\<lambda>k st. st)"
    by (simp add: demo_tick_def)
  obtain n st' where run: "markExpiredAuctionsAsEnded_try demo_tick st = (Inr n, st')"
    using reaper_completes[OF quiet, of st]
    by (auto simp: st findUnique_user_def demo_defs)
  have rows: "auction_items st' = [demo_auction\<lparr>currentHighestBidInDollars := 12000,
                 updatedAtTimestamp := 1003, currentStatus := ENDED, winnerUserId := Some ''userC''\<rparr>]"
    using run by (auto simp: st demo_defs reaper_defs)
  have row: "demo_auction\<lparr>currentHighestBidInDollars := 12000, updatedAtTimestamp := 12\<rparr>
               \<in> set (auction_items st)"
    by (simp add: st)
  have pre: "is_expired (tick_now demo_tick)
               (demo_auction\<lparr>currentHighestBidInDollars := 12000, updatedAtTimestamp := 12\<rparr>)"
    "winnerUserId (demo_auction\<lparr>currentHighestBidInDollars := 12000,
                                 updatedAtTimestamp := 12\<rparr>) = None"
    "successful_bids_on st
       (ai_id (demo_auction\<lparr>currentHighestBidInDollars := 12000, updatedAtTimestamp := 12\<rparr>))
       \<noteq> []"
    by (simp_all add: st is_expired_def demo_defs demo_tick_def successful_bids_on_def)
  from winner_is_a_highest_bidder[OF quiet run row pre] obtain hb j where
    "hb \<in> set (successful_bids_on st
                  (ai_id (demo_auction\<lparr>currentHighestBidInDollars := 12000,
                                        updatedAtTimestamp := 12\<rparr>)))"
    "demo_auction\<lparr>currentHighestBidInDollars := 12000, updatedAtTimestamp := 12,
        currentStatus := ENDED, winnerUserId := Some (bid_bidderUserId hb),
        updatedAtTimestamp := tick_updatedAt demo_tick j\<rparr> \<in> set (auction_items st')"
    by blast
  with run rows show ?thesis
    unfolding st_def[symmetric]
    by (simp add: markExpiredAuctionsAsEnded_def) (simp add: st successful_bids_on_def demo_defs)
qed

section \<open>The end-of-auction events\<close>

lemma tick_flips_expired:
  assumes quiet: "tick_interference env = (\<lambda>k st. st)"
      and up: "dbUp (db w)"
  shows "map ai_id (auction_items (db (snd (checkExpiredAuctions env w))))
           = map ai_id (auction_items (db w))
       \<and> map currentStatus (auction_items (db (snd (checkExpiredAuctions env w))))
           = map (\<lambda>r. if is_expired (tick_now env) r then ENDED else currentStatus r)
               (auction_items (db w))"
proof -
  let ?st1 = "(db w)\<lparr>auction_items :=
                  map (\<lambda>a. if is_expired (tick_now env) a
                           then a\<lparr>currentStatus := ENDED,
                                  updatedAtTimestamp := tick_updatedAt env 0\<rparr>
                           else a)
                    (auction_items (db w))\<rparr>"
  let ?pending = "filter (\<lambda>a. currentStatus a = ENDED \<and> winnerUserId a = None)
                    (auction_items ?st1)"
  obtain res st2 where loop: "assign_winners env 2 ?pending ?st1 = (res, st2)"
    by (cases "assign_winners env 2 ?pending ?st1")
  from up quiet loop have "db (snd (checkExpiredAuctions env w)) = st2"
    by (auto simp: checkExpiredAuctions_def markExpiredAuctionsAsEnded_def
          markExpiredAuctionsAsEnded_try_def Let_def split: sum.splits)
  with assign_winners_keeps[OF quiet loop] show ?thesis
    by (simp add: comp_def cong: map_cong)
qed

text \<open>
  C4: the claim is what the tick is written to do (\<open>checkExpiredAuctions\<close> loops over
  \<open>result.endedAuctions\<close> under the comment "Broadcast each ended auction
  individually"), and the code does not do it. \<open>markExpiredAuctionsAsEnded\<close> returns
  a bare count, on which \<open>result.count\<close> is undefined, so no tick emits any event,
  whatever it ended: with the store reachable and no other writer, the tick moves every
  \<open>ACTIVE\<close> auction whose end time has passed to \<open>ENDED\<close>, and its list of
  emissions is empty.
\<close>

theorem tick_ends_auctions_and_emits_nothing:
  "fst (checkExpiredAuctions env w) = []
   \<and> (dbUp (db w) \<and> tick_interference env = (\<lambda>k st. st) \<longrightarrow>
        map ai_id (auction_items (db (snd (checkExpiredAuctions env w))))
          = map ai_id (auction_items (db w))
        \<and> map currentStatus (auction_items (db (snd (checkExpiredAuctions env w))))
            = map (\<lambda>r. if is_expired (tick_now env) r then ENDED else currentStatus r)
                (auction_items (db w)))"
proof -
  have "fst (checkExpiredAuctions env w) = []"
    by (simp add: checkExpiredAuctions_def broadcastEndedAuctions_def split: prod.splits)
  with tick_flips_expired[of env w] show ?thesis by blast
qed

theorem tick_ends_auctions_and_emits_nothing_witness:
  "(let (out, w') = checkExpiredAuctions demo_tick demo_world
    in map (\<lambda>r. (ai_id r, currentStatus r, auctionEndTimeTimestamp r))
         (auction_items (db demo_world)) = [(''a1'', ACTIVE, 1000)]
       \<and> tick_now demo_tick = 1000
       \<and> map (\<lambda>r. (ai_id r, currentStatus r)) (auction_items (db w')) = [(''a1'', ENDED)]
       \<and> out = [])"
proof -
  have pre: "dbUp (db demo_world) \<and> tick_interference demo_tick = (\<lambda>k st. st)"
    by (simp add: demo_defs demo_tick_def)
  from tick_ends_auctions_and_emits_nothing[of demo_tick demo_world] pre
  have "fst (checkExpiredAuctions demo_tick demo_world) = []"
    and "map ai_id (auction_items (db (snd (checkExpiredAuctions demo_tick demo_world))))
           = map ai_id (auction_items (db demo_world))"
    and "map currentStatus (auction_items (db (snd (checkExpiredAuctions demo_tick demo_world))))
            = map (\<lambda>r. if is_expired (tick_now demo_tick) r then ENDED else currentStatus r)
                (auction_items (db demo_world))"
    by blast+
  then show ?thesis
    by (simp add: demo_defs demo_tick_def is_expired_def split: prod.splits)
       (auto simp: map_eq_Cons_conv)
qed

section \<open>The price only goes up\<close>

lemma findUnique_the_row:
  assumes "findUnique_auctionItem st a0 = Some row0"
      and "distinct (map ai_id (auction_items st))"
      and "a \<in> set (auction_items st)" and "ai_id a = a0"
  shows "a = row0"
proof -
  from assms(1) have "row0 \<in> set (auction_items st)" "ai_id row0 = a0"
    by (auto simp: findUnique_auctionItem_def find_Some_iff)
  with assms(2-4) show ?thesis
    by (metis distinct_map inj_onD)
qed

lemma price_covers_bids_later:
  "price_covers_bids t st \<Longrightarrow> t \<le> t' \<Longrightarrow> price_covers_bids t' st"
  unfolding price_covers_bids_def by (meson order_trans)

lemma commit_keeps_invariant:
  assumes inv: "price_covers_bids t st" and mono: "monotonic_price st"
      and row0: "findUnique_auctionItem st a0 = Some row0"
      and req: "currentHighestBidInDollars row0 + minimumBidIncrementInDollars row0 \<le> c"
      and t1: "t \<le> t1"
      and b: "b = \<lparr>bid_id = i, bid_bidAmountInDollars = c, bid_placedAtTimestamp = t1,
                   bid_wasBidSuccessful = True, bid_bidProcessingTimeInMs = None,
                   bid_auctionItemId = a0, bid_bidderUserId = u\<rparr>"
      and st': "st' = (update_auctionItem a0
                        (\<lambda>r. r\<lparr>currentHighestBidInDollars := c, updatedAtTimestamp := t1\<rparr>) st)
                      \<lparr>bids := bids st @ [b]\<rparr>"
  shows "price_covers_bids t1 st' \<and> monotonic_price st'"
proof -
  define upd :: "auction_item \<Rightarrow> auction_item" where
    "upd = (\<lambda>a. if ai_id a = a0
                then a\<lparr>currentHighestBidInDollars := c, updatedAtTimestamp := t1\<rparr> else a)"
  have rows': "auction_items st' = map upd (auction_items st)"
    by (simp add: st' update_auctionItem_def upd_def)
  have upd_id: "\<And>a. ai_id (upd a) = ai_id a"
    and upd_inc: "\<And>a. minimumBidIncrementInDollars (upd a) = minimumBidIncrementInDollars a"
    and upd_hit: "\<And>a. ai_id a = a0 \<Longrightarrow> currentHighestBidInDollars (upd a) = c"
    and upd_miss: "\<And>a. ai_id a \<noteq> a0 \<Longrightarrow> upd a = a"
    by (simp_all add: upd_def)
  have ids: "map ai_id (auction_items st') = map ai_id (auction_items st)"
    by (simp add: rows' upd_id cong: map_cong)
  have sb_hit: "successful_bids_on st' a0 = successful_bids_on st a0 @ [b]"
    by (simp add: successful_bids_on_def st' update_auctionItem_def b)
  have sb_miss: "\<And>a. a \<noteq> a0 \<Longrightarrow> successful_bids_on st' a = successful_bids_on st a"
    by (simp add: successful_bids_on_def st' update_auctionItem_def b)
  from inv have dist: "distinct (map ai_id (auction_items st))"
    and inc_pos: "\<And>a. a \<in> set (auction_items st) \<Longrightarrow> 0 < minimumBidIncrementInDollars a"
    and below: "\<And>a b. a \<in> set (auction_items st) \<Longrightarrow> b \<in> set (successful_bids_on st (ai_id a))
                  \<Longrightarrow> bid_bidAmountInDollars b \<le> currentHighestBidInDollars a
                      \<and> bid_placedAtTimestamp b \<le> t"
    by (auto simp: price_covers_bids_def)
  from mono have pairs: "\<And>a b1 b2. a \<in> set (auction_items st)
        \<Longrightarrow> b1 \<in> set (successful_bids_on st (ai_id a))
        \<Longrightarrow> b2 \<in> set (successful_bids_on st (ai_id a))
        \<Longrightarrow> bid_placedAtTimestamp b1 < bid_placedAtTimestamp b2
        \<Longrightarrow> bid_bidAmountInDollars b1 + minimumBidIncrementInDollars a
              \<le> bid_bidAmountInDollars b2"
    by (auto simp: monotonic_price_def)
  have the_row: "\<And>a. a \<in> set (auction_items st) \<Longrightarrow> ai_id a = a0 \<Longrightarrow> a = row0"
    using findUnique_the_row[OF row0 dist] by blast
  have b_fields: "bid_bidAmountInDollars b = c" "bid_placedAtTimestamp b = t1"
    by (simp_all add: b)
  have "price_covers_bids t1 st'"
    unfolding price_covers_bids_def
  proof (intro conjI ballI)
    show "distinct (map ai_id (auction_items st'))" using dist ids by simp
  next
    fix a' assume "a' \<in> set (auction_items st')"
    then obtain a where a: "a \<in> set (auction_items st)" and a': "a' = upd a"
      by (auto simp: rows')
    show "0 < minimumBidIncrementInDollars a'"
      using inc_pos[OF a] by (simp add: a' upd_inc)
  next
    fix a' b' assume "a' \<in> set (auction_items st')"
      and b': "b' \<in> set (successful_bids_on st' (ai_id a'))"
    then obtain a where a: "a \<in> set (auction_items st)" and a': "a' = upd a"
      by (auto simp: rows')
    show "bid_bidAmountInDollars b' \<le> currentHighestBidInDollars a'"
    proof (cases "ai_id a = a0")
      case True
      then have r: "a = row0" using the_row[OF a] by simp
      from req inc_pos[OF a] r have cur: "currentHighestBidInDollars a \<le> c" by simp
      from b' True have "b' \<in> set (successful_bids_on st (ai_id a)) \<or> b' = b"
        by (auto simp: a' upd_id sb_hit)
      then have "bid_bidAmountInDollars b' \<le> c"
      proof
        assume "b' \<in> set (successful_bids_on st (ai_id a))"
        from below[OF a this] cur show ?thesis by simp
      next
        assume "b' = b"
        then show ?thesis by (simp add: b_fields)
      qed
      then show ?thesis using True by (simp add: a' upd_hit)
    next
      case False
      with b' have "b' \<in> set (successful_bids_on st (ai_id a))"
        by (simp add: a' upd_miss sb_miss)
      from below[OF a this] False show ?thesis by (simp add: a' upd_miss)
    qed
    show "bid_placedAtTimestamp b' \<le> t1"
    proof (cases "ai_id a = a0")
      case True
      from b' True have "b' \<in> set (successful_bids_on st (ai_id a)) \<or> b' = b"
        by (auto simp: a' upd_id sb_hit)
      then show ?thesis
      proof
        assume "b' \<in> set (successful_bids_on st (ai_id a))"
        from below[OF a this] t1 show ?thesis by simp
      next
        assume "b' = b"
        then show ?thesis by (simp add: b_fields)
      qed
    next
      case False
      with b' have "b' \<in> set (successful_bids_on st (ai_id a))"
        by (simp add: a' upd_miss sb_miss)
      from below[OF a this] t1 show ?thesis by simp
    qed
  qed
  moreover have "monotonic_price st'"
    unfolding monotonic_price_def
  proof (intro ballI impI)
    fix a' b1 b2 assume "a' \<in> set (auction_items st')"
      and b1: "b1 \<in> set (successful_bids_on st' (ai_id a'))"
      and b2: "b2 \<in> set (successful_bids_on st' (ai_id a'))"
      and lt: "bid_placedAtTimestamp b1 < bid_placedAtTimestamp b2"
    then obtain a where a: "a \<in> set (auction_items st)" and a': "a' = upd a"
      by (auto simp: rows')
    show "bid_bidAmountInDollars b1 + minimumBidIncrementInDollars a' \<le> bid_bidAmountInDollars b2"
    proof (cases "ai_id a = a0")
      case False
      with b1 b2 have "b1 \<in> set (successful_bids_on st (ai_id a))"
        "b2 \<in> set (successful_bids_on st (ai_id a))"
        by (simp_all add: a' upd_miss sb_miss)
      from pairs[OF a this lt] False show ?thesis by (simp add: a' upd_miss)
    next
      case True
      then have r: "a = row0" using the_row[OF a] by simp
      from b1 True have c1: "b1 \<in> set (successful_bids_on st (ai_id a)) \<or> b1 = b"
        by (auto simp: a' upd_id sb_hit)
      from b2 True have c2: "b2 \<in> set (successful_bids_on st (ai_id a)) \<or> b2 = b"
        by (auto simp: a' upd_id sb_hit)
      consider (old) "b1 \<in> set (successful_bids_on st (ai_id a))"
                     "b2 \<in> set (successful_bids_on st (ai_id a))"
        | (new2) "b1 \<in> set (successful_bids_on st (ai_id a))" "b2 = b"
        | (new1) "b1 = b" "b2 \<in> set (successful_bids_on st (ai_id a))"
        | (both) "b1 = b" "b2 = b"
        using c1 c2 by blast
      then show ?thesis
      proof cases
        case old
        from pairs[OF a old lt] show ?thesis by (simp add: a' upd_inc)
      next
        case new2
        from below[OF a new2(1)] have "bid_bidAmountInDollars b1 \<le> currentHighestBidInDollars a"
          by simp
        with req r new2(2) show ?thesis by (simp add: a' upd_inc b_fields)
      next
        case new1
        from below[OF a new1(2)] have "bid_placedAtTimestamp b2 \<le> t" by simp
        with t1 lt new1(1) show ?thesis by (simp add: b_fields)
      next
        case both
        with lt show ?thesis by simp
      qed
    qed
  qed
  ultimately show ?thesis ..
qed

lemma bid_step:
  assumes inv: "price_covers_bids t (db w)" and mono: "monotonic_price (db w)"
      and alone: "env_interference env = (\<lambda>st. st)"
      and clock: "t \<le> env_bidPlacedAt env"
      and run: "processBidWithDistributedLock env a u x w = (r, w')"
  shows "price_covers_bids (env_bidPlacedAt env) (db w') \<and> monotonic_price (db w')
       \<and> list_all2 (\<lambda>row row'. ai_id row' = ai_id row
                      \<and> currentHighestBidInDollars row \<le> currentHighestBidInDollars row')
            (auction_items (db w)) (auction_items (db w'))
       \<and> (wasBidSuccessful r \<longrightarrow>
            (\<exists>prev c. previousHighestBidInDollars r = Some prev
               \<and> newHighestBidInDollars r = Some x
               \<and> store_decimal_12_2 x = Some c
               \<and> prev < x \<and> prev < toNumber c))"
proof (cases "wasBidSuccessful r")
  case False
  from failed_bid_store[OF run False] alone have same: "db w' = db w" by auto
  have "list_all2 (\<lambda>row row'. ai_id row' = ai_id row
                      \<and> currentHighestBidInDollars row \<le> currentHighestBidInDollars row')
            (auction_items (db w)) (auction_items (db w))"
    by (simp add: list_all2_same)
  with False same inv mono clock price_covers_bids_later show ?thesis by auto
next
  case True
  from accepted_bid_store[OF run True] alone obtain row b where
    row: "findUnique_auctionItem (db w) a = Some row"
    and req: "toNumber (currentHighestBidInDollars row)
               + toNumber (minimumBidIncrementInDollars row) \<le> x"
    and tx: "bid_transaction a u x (env_bidPlacedAt env) (env_bidId env) (db w) = (Inr b, db w')"
    and res: "previousHighestBidInDollars r = Some (toNumber (currentHighestBidInDollars row))"
             "newHighestBidInDollars r = Some x"
    by auto
  from bid_transaction_commits[OF tx] obtain c where
    c: "store_decimal_12_2 x = Some c"
    and b: "b = \<lparr>bid_id = env_bidId env, bid_bidAmountInDollars = c,
                  bid_placedAtTimestamp = env_bidPlacedAt env,
                  bid_wasBidSuccessful = True, bid_bidProcessingTimeInMs = None,
                  bid_auctionItemId = a, bid_bidderUserId = u\<rparr>"
    and st': "db w' = (update_auctionItem a
                      (\<lambda>r. r\<lparr>currentHighestBidInDollars := c,
                              updatedAtTimestamp := env_bidPlacedAt env\<rparr>) (db w))
                   \<lparr>bids := bids (db w) @ [b]\<rparr>"
    by blast
  from stored_amount_covers_required[OF req c]
  have cover: "currentHighestBidInDollars row + minimumBidIncrementInDollars row \<le> c" .
  from inv have dist: "distinct (map ai_id (auction_items (db w)))"
    and inc_pos: "\<And>r. r \<in> set (auction_items (db w)) \<Longrightarrow> 0 < minimumBidIncrementInDollars r"
    by (auto simp: price_covers_bids_def)
  from row have row_in: "row \<in> set (auction_items (db w))"
    by (auto simp: findUnique_auctionItem_def find_Some_iff)
  from inc_pos[OF row_in] cover have up: "currentHighestBidInDollars row < c" by simp
  from inc_pos[OF row_in] req have "toNumber (currentHighestBidInDollars row) < x"
    by (simp add: toNumber_def)
  moreover from up have "toNumber (currentHighestBidInDollars row) < toNumber c"
    by (simp add: toNumber_def)
  moreover have "list_all2 (\<lambda>row row'. ai_id row' = ai_id row
                      \<and> currentHighestBidInDollars row \<le> currentHighestBidInDollars row')
            (auction_items (db w)) (auction_items (db w'))"
  proof -
    have "\<And>r. r \<in> set (auction_items (db w)) \<Longrightarrow> ai_id r = a
            \<Longrightarrow> currentHighestBidInDollars r \<le> c"
      using findUnique_the_row[OF row dist] up by force
    then show ?thesis
      by (simp add: st' update_auctionItem_def list_all2_map2 list_all2_same)
  qed
  ultimately show ?thesis
    using commit_keeps_invariant[OF inv mono row cover clock b st'] res c by simp
qed

text \<open>
  C6, as stated, fails when a call outlives its turn. In \<open>stalled_env\<close> user B's bid of
  120.00, validated against 110.00 and stamped \<open>placedAt\<close> = 12, commits after user C's
  bid of 120.00 stamped 20. Both rows are successful bids on \<open>a1\<close>, B's is the earlier
  placed, and C's amount is not 10.00 above B's.
\<close>

theorem monotonic_price_counterexample:
  "(let (r, w1) = processBidWithDistributedLock stalled_env ''a1'' ''userB'' 120 demo_world
    in wasBidSuccessful r
       \<and> map (\<lambda>b. (bid_bidderUserId b, bid_bidAmountInDollars b, bid_placedAtTimestamp b,
                    bid_wasBidSuccessful b)) (bids (db w1))
           = [(''userC'', 12000, 20, True), (''userB'', 12000, 12, True)]
       \<and> map minimumBidIncrementInDollars (auction_items (db w1)) = [1000]
       \<and> \<not> monotonic_price (db w1))"
proof -
  obtain r w1 where run:
    "processBidWithDistributedLock stalled_env ''a1'' ''userB'' 120 demo_world = (r, w1)"
    by (cases "processBidWithDistributedLock stalled_env ''a1'' ''userB'' 120 demo_world")
  from stalled_bid_store run have ok: "wasBidSuccessful r"
    and st: "db w1 =
     \<lparr>dbUp = True, users = demo_users,
      auction_items = [demo_auction\<lparr>currentHighestBidInDollars := 12000,
                                    updatedAtTimestamp := 12\<rparr>],
      bids = [\<lparr>bid_id = ''bid-2'', bid_bidAmountInDollars = 12000,
               bid_placedAtTimestamp = 20, bid_wasBidSuccessful = True,
               bid_bidProcessingTimeInMs = None, bid_auctionItemId = ''a1'',
               bid_bidderUserId = ''userC''\<rparr>,
              \<lparr>bid_id = ''bid-1'', bid_bidAmountInDollars = 12000,
               bid_placedAtTimestamp = 12, bid_wasBidSuccessful = True,
               bid_bidProcessingTimeInMs = None, bid_auctionItemId = ''a1'',
               bid_bidderUserId = ''userB''\<rparr>]\<rparr>"
    by simp_all
  have "\<not> monotonic_price (db w1)"
    unfolding st monotonic_price_def
    by (auto simp: successful_bids_on_def demo_auction_def)
  with ok st run show ?thesis
    by (simp add: demo_auction_def)
qed

text \<open>
  C6, amended: take a store in which no successful bid is above its auction's current
  bid and P1 holds (a store without bids is one), and handle any sequence of bids one
  after the other, nobody else writing in between. Then P1 holds of the successful bids in the end: for any two on one auction,
  the later placed is at least the minimum increment above the other. Row by row the
  current bid never went down, and every accepted bid was strictly above the current
  bid it was validated against, as submitted and as stored.
\<close>

theorem accepted_bids_raise_the_price:
  assumes "price_covers_bids t (db w)" and "monotonic_price (db w)"
      and "serialised t qs" and "place_bids qs w = (rs, w')"
  shows "monotonic_price (db w')
       \<and> list_all2 (\<lambda>row row'. ai_id row' = ai_id row
                      \<and> currentHighestBidInDollars row \<le> currentHighestBidInDollars row')
            (auction_items (db w)) (auction_items (db w'))
       \<and> (\<forall>r\<in>set rs. wasBidSuccessful r \<longrightarrow>
            (\<exists>prev y c. previousHighestBidInDollars r = Some prev
               \<and> newHighestBidInDollars r = Some y
               \<and> store_decimal_12_2 y = Some c
               \<and> prev < y \<and> prev < toNumber c))"
  using assms
proof (induction qs arbitrary: t w rs w')
  case Nil
  then show ?case by (simp add: list_all2_same)
next
  case (Cons q qs)
  obtain r w1 where step: "processBidWithDistributedLock (req_env q) (req_auctionItemId q)
                      (req_bidderUserId q) (req_bidAmountInDollars q) w = (r, w1)"
    by (cases "processBidWithDistributedLock (req_env q) (req_auctionItemId q)
                      (req_bidderUserId q) (req_bidAmountInDollars q) w")
  obtain rs1 w2 where rest: "place_bids qs w1 = (rs1, w2)"
    by (cases "place_bids qs w1")
  from Cons.prems(4) step rest have rs: "rs = r # rs1" and w': "w' = w2" by simp_all
  from Cons.prems(3) have alone: "env_interference (req_env q) = (\<lambda>st. st)"
    and clock: "t \<le> env_bidPlacedAt (req_env q)"
    and later: "serialised (env_bidPlacedAt (req_env q)) qs"
    by simp_all
  note one = bid_step[OF Cons.prems(1,2) alone clock step]
  from one have inv1: "price_covers_bids (env_bidPlacedAt (req_env q)) (db w1)"
    and mono1: "monotonic_price (db w1)" by simp_all
  note more = Cons.IH[OF inv1 mono1 later rest]
  have "list_all2 (\<lambda>row row'. ai_id row' = ai_id row
                      \<and> currentHighestBidInDollars row \<le> currentHighestBidInDollars row')
            (auction_items (db w)) (auction_items (db w2))"
  proof (rule list_all2_trans)
    show "list_all2 (\<lambda>row row'. ai_id row' = ai_id row
                      \<and> currentHighestBidInDollars row \<le> currentHighestBidInDollars row')
            (auction_items (db w)) (auction_items (db w1))"
      using one by simp
    show "list_all2 (\<lambda>row row'. ai_id row' = ai_id row
                      \<and> currentHighestBidInDollars row \<le> currentHighestBidInDollars row')
            (auction_items (db w1)) (auction_items (db w2))"
      using more by simp
  qed auto
  with one more rs w' show ?case by auto
qed

theorem accepted_bids_raise_the_price_witness:
  "price_covers_bids 0 (db demo_world) \<and> monotonic_price (db demo_world)
   \<and> serialised 0 demo_requests
   \<and> (let (rs, w') = place_bids demo_requests demo_world
      in map wasBidSuccessful rs = [True, True]
         \<and> map (\<lambda>b. (bid_bidAmountInDollars b, bid_placedAtTimestamp b)) (bids (db w'))
             = [(12000, 12), (13000, 22)]
         \<and> monotonic_price (db w'))"
proof -
  have inv: "price_covers_bids 0 (db demo_world)"
    by (simp add: price_covers_bids_def demo_defs successful_bids_on_def)
  have mono: "monotonic_price (db demo_world)"
    by (simp add: monotonic_price_def demo_defs successful_bids_on_def)
  have ser: "serialised 0 demo_requests"
    by (simp add: demo_requests_def demo_env_def)
  obtain rs w' where run: "place_bids demo_requests demo_world = (rs, w')"
    by (cases "place_bids demo_requests demo_world")
  have ev: "map wasBidSuccessful rs = [True, True]"
    "map (\<lambda>b. (bid_bidAmountInDollars b, bid_placedAtTimestamp b)) (bids (db w'))
             = [(12000, 12), (13000, 22)]"
    using run
    by (auto simp add: demo_requests_def demo_defs code_defs store_decimal_examples Let_def)
  from accepted_bids_raise_the_price[OF inv mono ser run] inv mono ser ev run
  show ?thesis by simp
qed

section \<open>The snapshot on join\<close>

text \<open>
  C5, as stated, fails. User B's bid of 120.006 is accepted, so the cache holds 120.006
  and the store 120.01; the reaper then ends the auction. A join now gets a snapshot
  with the store's 120.01, not the cached value, and with the status \<open>ACTIVE\<close> although
  the auction is \<open>ENDED\<close>.
\<close>

theorem join_snapshot_counterexample:
  "(let w1 = snd (handlePlaceBid demo_env demo_socket
                    \<lparr>payload_auctionItemId = ''a1'',
                     payload_bidAmountInDollars = Some (120006 / 1000)\<rparr> demo_world);
        w2 = snd (checkExpiredAuctions demo_tick w1);
        (out, w3) = handleJoinRoom demo_socket_C ''a1'' w2
    in kv (redis w2) ''auction:current-bid:a1'' = Some (NumStr (120006 / 1000))
       \<and> map currentStatus (auction_items (db w2)) = [ENDED]
       \<and> out = [(ThisSocket ''sock-C'', ''JOINED_AUCTION_ROOM'', JoinedAuctionRoom ''a1''),
                 (ThisSocket ''sock-C'', ''AUCTION_STATE_SYNC'',
                  AuctionStateSync
                    \<lparr>sync_auctionItemId = ''a1'',
                     sync_currentHighestBidInDollars = 12001 / 100,
                     sync_highestBidderUserId = Some ''userB'',
                     sync_highestBidderUsername = Some ''bob'',
                     sync_auctionEndTimeTimestamp = 1000,
                     sync_currentStatus = ''ACTIVE'',
                     sync_totalNumberOfBids = 1\<rparr>)])"
  by (simp add: demo_defs code_defs handler_defs reaper_defs tick_defs store_decimal_examples
        handleJoinRoom_def demo_socket_C_def Let_def)

text \<open>
  C5, amended: a join to an auction that the store holds is answered with
  \<open>JOINED_AUCTION_ROOM\<close> and one \<open>AUCTION_STATE_SYNC\<close> whose snapshot reports the
  row's current highest bid, the username of the bidder of the highest successful bid
  (or null), the row's end time, and the number of all bid rows of the auction. Every
  value is read from the store; the coordinator cache is never read.
\<close>

theorem join_snapshot_reads_the_store:
  assumes aid: "a \<noteq> []" and up: "dbUp (db w)"
      and row: "findUnique_auctionItem (db w) a = Some row"
      and fk: "\<forall>b\<in>set (bids (db w)). findUnique_user (db w) (bid_bidderUserId b) \<noteq> None"
  shows "\<exists>p. fst (handleJoinRoom sock a w) =
               [(ThisSocket (socket_id sock), ''JOINED_AUCTION_ROOM'', JoinedAuctionRoom a),
                (ThisSocket (socket_id sock), ''AUCTION_STATE_SYNC'', AuctionStateSync p)]
           \<and> sync_auctionItemId p = ai_id row
           \<and> sync_currentHighestBidInDollars p = toNumber (currentHighestBidInDollars row)
           \<and> sync_auctionEndTimeTimestamp p = auctionEndTimeTimestamp row
           \<and> sync_totalNumberOfBids p
               = length (filter (\<lambda>b. bid_auctionItemId b = a) (bids (db w)))
           \<and> sync_highestBidderUsername p
               = (case findFirst_highestBid (db w) a of
                    None \<Rightarrow> None
                  | Some hb \<Rightarrow>
                      (case findUnique_user (db w) (bid_bidderUserId hb) of
                         None \<Rightarrow> None
                       | Some u \<Rightarrow> if user_username u = [] then None
                                   else Some (user_username u)))
           \<and> fst (handleJoinRoom sock a (w\<lparr>redis := cache\<rparr>)) = fst (handleJoinRoom sock a w)"
proof -
  have user: "\<And>hb. findFirst_highestBid (db w) a = Some hb
                \<Longrightarrow> findUnique_user (db w) (bid_bidderUserId hb) \<noteq> None"
  proof -
    fix hb assume "findFirst_highestBid (db w) a = Some hb"
    from findFirst_highestBid_Some[OF this] have "hb \<in> set (bids (db w))"
      by (simp add: successful_bids_on_def)
    with fk show "findUnique_user (db w) (bid_bidderUserId hb) \<noteq> None" by blast
  qed
  show ?thesis
  proof (cases "findFirst_highestBid (db w) a")
    case None
    with aid up row show ?thesis
      by (simp add: handleJoinRoom_def fetchCurrentAuctionBidInfo_def Let_def)
  next
    case (Some hb)
    from user[OF Some] obtain u where "findUnique_user (db w) (bid_bidderUserId hb) = Some u"
      by blast
    with Some aid up row show ?thesis
      by (simp add: handleJoinRoom_def fetchCurrentAuctionBidInfo_def Let_def)
  qed
qed

theorem join_snapshot_reads_the_store_witness:
  "(\<exists>p. fst (handleJoinRoom demo_socket_C ''a1'' demo_world) =
          [(ThisSocket ''sock-C'', ''JOINED_AUCTION_ROOM'', JoinedAuctionRoom ''a1''),
           (ThisSocket ''sock-C'', ''AUCTION_STATE_SYNC'', AuctionStateSync p)]
        \<and> sync_currentHighestBidInDollars p = 110
        \<and> sync_auctionEndTimeTimestamp p = 1000
        \<and> sync_totalNumberOfBids p = 0
        \<and> sync_highestBidderUsername p = None)"
proof -
  have row: "findUnique_auctionItem (db demo_world) ''a1'' = Some demo_auction"
    by (simp add: findUnique_auctionItem_def demo_defs)
  have none: "findFirst_highestBid (db demo_world) ''a1'' = None"
    by (simp add: findFirst_highestBid_def successful_bids_on_def demo_defs)
  have pre: "''a1'' \<noteq> []" "dbUp (db demo_world)"
    "\<forall>b\<in>set (bids (db demo_world)).
        findUnique_user (db demo_world) (bid_bidderUserId b) \<noteq> None"
    by (simp_all add: demo_defs)
  from join_snapshot_reads_the_store[OF pre(1,2) row pre(3), of demo_socket_C demo_redis]
  obtain p where
    "fst (handleJoinRoom demo_socket_C ''a1'' demo_world) =
       [(ThisSocket (socket_id demo_socket_C), ''JOINED_AUCTION_ROOM'', JoinedAuctionRoom ''a1''),
        (ThisSocket (socket_id demo_socket_C), ''AUCTION_STATE_SYNC'', AuctionStateSync p)]"
    "sync_currentHighestBidInDollars p = toNumber (currentHighestBidInDollars demo_auction)"
    "sync_auctionEndTimeTimestamp p = auctionEndTimeTimestamp demo_auction"
    "sync_totalNumberOfBids p
       = length (filter (\<lambda>b. bid_auctionItemId b = ''a1'') (bids (db demo_world)))"
    "sync_highestBidderUsername p = None"
    using none by auto
  then show ?thesis
    by (intro exI[of _ p]) (simp add: demo_defs demo_socket_C_def toNumber_def)
qed

end
